theory Spec2Isabelle
  imports Main "HOL-Library.Char_ord" "HOL-Library.List_Lexorder"
begin

section \<open>Data model\<close>

text \<open>
  The types of \<^verbatim>\<open>src/worker.ts\<close> (lines 21-62 and 727-768), which mirror the
  front end's \<^verbatim>\<open>types.ts\<close>. JavaScript numbers that the schema
  (\<^verbatim>\<open>src/schema.sql\<close>) stores in INTEGER columns are modelled as \<open>int\<close>;
  on such values \<^verbatim>\<open>Number(x)\<close> is the identity and \<^verbatim>\<open>isNaN\<close> is false.
  The field \<^verbatim>\<open>id\<close> is called \<open>item_id\<close> and \<open>app_id\<close>, \<^verbatim>\<open>name\<close> is
  \<open>item_name\<close>, and \<^verbatim>\<open>unit\<close> is \<open>item_unit\<close>.
\<close>

record Item =
  item_id :: string
  item_name :: string
  initialStock :: int
  currentStock :: int
  price :: int
  description :: string
  imageUrl :: string
  item_unit :: string

record SelectedItemEntry =
  itemId :: string
  quantity :: int

datatype RentalStatus = PENDING | RENTED | RETURNED

record RentalApplication =
  app_id :: string
  applicantName :: string
  phoneNumber :: string
  studentId :: string
  accountHolderName :: string
  accountNumber :: string
  rentalDate :: string
  returnDate :: string
  items :: "SelectedItemEntry list"
  totalItemCost :: int
  deposit :: int
  totalAmount :: int
  status :: RentalStatus
  applicationDate :: string
  rentalStaff :: "string option"
  returnStaff :: "string option"
  actualReturnDate :: "string option"
  depositRefunded :: bool

text \<open>
  A request body typed \<^verbatim>\<open>Partial<RentalApplication>\<close>: every field may be absent
  (\<open>None\<close>). For the nullable columns the inner option is the JSON \<^verbatim>\<open>null\<close>.
\<close>

record AppPatch =
  p_id :: "string option"
  p_applicantName :: "string option"
  p_phoneNumber :: "string option"
  p_studentId :: "string option"
  p_accountHolderName :: "string option"
  p_accountNumber :: "string option"
  p_rentalDate :: "string option"
  p_returnDate :: "string option"
  p_items :: "SelectedItemEntry list option"
  p_totalItemCost :: "int option"
  p_deposit :: "int option"
  p_totalAmount :: "int option"
  p_status :: "RentalStatus option"
  p_applicationDate :: "string option"
  p_rentalStaff :: "string option option"
  p_returnStaff :: "string option option"
  p_actualReturnDate :: "string option option"
  p_depositRefunded :: "bool option"

text \<open>
  The body of the create request:
  \<^verbatim>\<open>Omit<RentalApplication, 'id' | 'applicationDate' | 'status' | 'totalItemCost' | 'totalAmount' | 'deposit'>\<close>.
  JSON carries no type, so the omitted cost fields may still be present in the body; they
  are kept as optional fields to show what the spread \<^verbatim>\<open>{...appData, ...}\<close> does to them.
\<close>

record AppData =
  d_applicantName :: string
  d_phoneNumber :: string
  d_studentId :: string
  d_accountHolderName :: string
  d_accountNumber :: string
  d_rentalDate :: string
  d_returnDate :: string
  d_items :: "SelectedItemEntry list"
  d_rentalStaff :: "string option"
  d_returnStaff :: "string option"
  d_actualReturnDate :: "string option"
  d_depositRefunded :: bool
  d_totalItemCost :: "int option"
  d_deposit :: "int option"
  d_totalAmount :: "int option"

text \<open>
  The store. In \<^verbatim>\<open>dataService.ts\<close> it is the two localStorage keys, an array of
  items and an array of applications that embed their item entries. In
  \<^verbatim>\<open>worker.ts\<close> it is the D1 database of \<^verbatim>\<open>schema.sql\<close>; the rows of
  RentalApplicationItems are kept inside the application they belong to (the foreign key
  with ON DELETE CASCADE ties every such row to one application), which is the view
  \<^verbatim>\<open>{...originalAppFromDb, items: originalItemsFromDb}\<close> the handlers build.
\<close>

record DB =
  db_items :: "Item list"
  db_rentals :: "RentalApplication list"

datatype error =
    InsufficientStock string int int
  | ItemNotFound string
  | NotFound
  | InvalidTransition
  | ValidationError
  | Unauthorized
  | StorageFailure

section \<open>Shared helpers\<close>

definition isReserved :: "RentalStatus \<Rightarrow> bool" where
  "isReserved s = (s = PENDING \<or> s = RENTED)"

text \<open>\<^verbatim>\<open>allDbItems.find(i => i.id === itemId)\<close>: the first match.\<close>

definition findItem :: "Item list \<Rightarrow> string \<Rightarrow> Item option" where
  "findItem allItems iid = find (\<lambda>i. item_id i = iid) allItems"

definition findEntry :: "SelectedItemEntry list \<Rightarrow> string \<Rightarrow> SelectedItemEntry option" where
  "findEntry entries iid = find (\<lambda>e. itemId e = iid) entries"

definition findApp :: "RentalApplication list \<Rightarrow> string \<Rightarrow> RentalApplication option" where
  "findApp apps aid = find (\<lambda>a. app_id a = aid) apps"

text \<open>\<^verbatim>\<open>entry ? Number(entry.quantity) : 0\<close>\<close>

definition qtyOf :: "SelectedItemEntry list \<Rightarrow> string \<Rightarrow> int" where
  "qtyOf entries iid = (case findEntry entries iid of Some e \<Rightarrow> quantity e | None \<Rightarrow> 0)"

text \<open>
  \<^verbatim>\<open>new Set([...a, ...b])\<close> iterates in insertion order and keeps the first
  occurrence of each element.
\<close>

definition setAdd :: "string list \<Rightarrow> string \<Rightarrow> string list" where
  "setAdd acc x = (if x \<in> set acc then acc else acc @ [x])"

definition allInvolvedItemIds :: "SelectedItemEntry list \<Rightarrow> SelectedItemEntry list \<Rightarrow> string list" where
  "allInvolvedItemIds oldItems newItems = foldl setAdd [] (map itemId oldItems @ map itemId newItems)"

text \<open>\<^verbatim>\<open>new Map(allDbItems.map(item => [item.id, Number(item.currentStock)]))\<close>: a later
  row with the same id overwrites an earlier one.\<close>

definition stockMapOf :: "Item list \<Rightarrow> (string \<rightharpoonup> int)" where
  "stockMapOf allItems = foldl (\<lambda>m i. m(item_id i \<mapsto> currentStock i)) Map.empty allItems"

section \<open>Cost calculator\<close>

text \<open>
  \<^verbatim>\<open>calculateRentalCosts\<close> (dataService.ts 81-93, worker.ts 213-231 and 912-929).
  The fixed deposit is \<^verbatim>\<open>FIXED_DEPOSIT_AMOUNT\<close>, a constant of the missing
  \<^verbatim>\<open>constants.ts\<close> in dataService.ts and an environment variable in worker.ts;
  it is the parameter \<open>fixedDeposit\<close>. The result object is the pair
  \<open>(totalItemCost, totalAmount)\<close>.
\<close>

definition addCost :: "Item list \<Rightarrow> int \<Rightarrow> SelectedItemEntry \<Rightarrow> int" where
  "addCost allItems acc selected =
     (case findItem allItems (itemId selected) of
        Some itemDetails \<Rightarrow> acc + price itemDetails * quantity selected
      | None \<Rightarrow> acc)"

definition calculateRentalCosts :: "SelectedItemEntry list \<Rightarrow> Item list \<Rightarrow> int \<Rightarrow> int \<times> int" where
  "calculateRentalCosts selectedItems allItems fixedDeposit =
     (let totalItemCost = foldl (addCost allItems) 0 selectedItems
      in (totalItemCost, totalItemCost + fixedDeposit))"

section \<open>The D1 statements of worker.ts\<close>

text \<open>
  The prepared statements the handlers put into \<^verbatim>\<open>env.DB.batch\<close>, one constructor
  per SQL text, with the bound values:
  \<^item> \<open>UpdateStockAdd d i\<close>: \<^verbatim>\<open>UPDATE Items SET currentStock = currentStock + ? WHERE id = ?\<close>
  \<^item> \<open>UpdateStockSubGuarded q i\<close>:
    \<^verbatim>\<open>UPDATE Items SET currentStock = currentStock - ? WHERE id = ? AND currentStock >= ?\<close>
    bound to \<open>(q, i, q)\<close>
  \<^item> \<open>DeleteAppItems a\<close>: \<^verbatim>\<open>DELETE FROM RentalApplicationItems WHERE rentalApplicationId = ?\<close>
  \<^item> \<open>InsertAppItem a i q\<close>: \<^verbatim>\<open>INSERT INTO RentalApplicationItems (...) VALUES (?, ?, ?)\<close>
  \<^item> \<open>InsertApp r\<close>: \<^verbatim>\<open>INSERT INTO RentalApplications (...) VALUES (...)\<close> (13 columns)
  \<^item> \<open>UpdateApp r\<close>: \<^verbatim>\<open>UPDATE RentalApplications SET ... WHERE id = ?\<close> (16 columns)
  \<^item> \<open>DeleteApp a\<close>: \<^verbatim>\<open>DELETE FROM RentalApplications WHERE id = ?\<close>
\<close>

datatype stmt =
    UpdateStockAdd int string
  | UpdateStockSubGuarded int string
  | DeleteAppItems string
  | InsertAppItem string string int
  | InsertApp RentalApplication
  | UpdateApp RentalApplication
  | DeleteApp string

text \<open>
  What the store does with one statement, from \<^verbatim>\<open>schema.sql\<close>: \<open>None\<close> is a
  constraint failure. Items has \<^verbatim>\<open>CHECK (currentStock >= 0)\<close> and
  \<^verbatim>\<open>CHECK (currentStock <= initialStock)\<close>; RentalApplications has the primary key
  \<^verbatim>\<open>id\<close>; RentalApplicationItems has the primary key
  \<^verbatim>\<open>(rentalApplicationId, itemId)\<close> and foreign keys to both other tables. An UPDATE
  whose WHERE clause matches no row changes nothing and is no failure. The INSERT into
  RentalApplications names 13 columns: the staff columns and actualReturnDate stay NULL
  and depositRefunded takes its DEFAULT 0.
\<close>

definition checkItem :: "Item \<Rightarrow> bool" where
  "checkItem i = (0 \<le> currentStock i \<and> currentStock i \<le> initialStock i)"

definition addStock :: "int \<Rightarrow> Item \<Rightarrow> Item" where
  "addStock d i = i\<lparr>currentStock := currentStock i + d\<rparr>"

fun execStmt :: "DB \<Rightarrow> stmt \<Rightarrow> DB option" where
  "execStmt db (UpdateStockAdd d iid) =
     (if list_all (\<lambda>i. checkItem (addStock d i)) (filter (\<lambda>i. item_id i = iid) (db_items db))
      then Some (db\<lparr>db_items := map (\<lambda>i. if item_id i = iid then addStock d i else i) (db_items db)\<rparr>)
      else None)"
| "execStmt db (UpdateStockSubGuarded q iid) =
     (if list_all (\<lambda>i. checkItem (addStock (- q) i))
           (filter (\<lambda>i. item_id i = iid \<and> currentStock i \<ge> q) (db_items db))
      then Some (db\<lparr>db_items :=
             map (\<lambda>i. if item_id i = iid \<and> currentStock i \<ge> q then addStock (- q) i else i) (db_items db)\<rparr>)
      else None)"
| "execStmt db (DeleteAppItems aid) =
     Some (db\<lparr>db_rentals := map (\<lambda>a. if app_id a = aid then a\<lparr>items := []\<rparr> else a) (db_rentals db)\<rparr>)"
| "execStmt db (InsertAppItem aid iid q) =
     (case findApp (db_rentals db) aid of
        None \<Rightarrow> None
      | Some a \<Rightarrow>
          (case findItem (db_items db) iid of
             None \<Rightarrow> None
           | Some _ \<Rightarrow>
               (case findEntry (items a) iid of
                  Some _ \<Rightarrow> None
                | None \<Rightarrow>
                    Some (db\<lparr>db_rentals :=
                      map (\<lambda>r. if app_id r = aid
                                then r\<lparr>items := items r @ [\<lparr>itemId = iid, quantity = q\<rparr>]\<rparr> else r)
                          (db_rentals db)\<rparr>))))"
| "execStmt db (InsertApp r) =
     (case findApp (db_rentals db) (app_id r) of
        Some _ \<Rightarrow> None
      | None \<Rightarrow>
          Some (db\<lparr>db_rentals := db_rentals db @
                  [r\<lparr>items := [], rentalStaff := None, returnStaff := None,
                     actualReturnDate := None, depositRefunded := False\<rparr>]\<rparr>))"
| "execStmt db (UpdateApp r) =
     Some (db\<lparr>db_rentals :=
             map (\<lambda>a. if app_id a = app_id r then r\<lparr>items := items a\<rparr> else a) (db_rentals db)\<rparr>)"
| "execStmt db (DeleteApp aid) =
     Some (db\<lparr>db_rentals := filter (\<lambda>a. app_id a \<noteq> aid) (db_rentals db)\<rparr>)"

text \<open>
  \<^verbatim>\<open>env.DB.batch\<close> runs the statements in order as one transaction: the first failing
  statement aborts the batch and nothing of it is kept.
\<close>

fun execBatch :: "DB \<Rightarrow> stmt list \<Rightarrow> DB option" where
  "execBatch db [] = Some db"
| "execBatch db (s # ss) =
     (case execStmt db s of None \<Rightarrow> None | Some db' \<Rightarrow> execBatch db' ss)"

text \<open>
  The end of every write handler: \<^verbatim>\<open>await env.DB.batch(ops)\<close> inside
  \<^verbatim>\<open>try\<close>; a failed batch is answered with status 409 or 500.
\<close>

definition commitBatch :: "DB \<Rightarrow> 'r \<Rightarrow> stmt list \<Rightarrow> (error + 'r) \<times> DB" where
  "commitBatch db r ops =
     (case execBatch db ops of
        None \<Rightarrow> (Inl StorageFailure, db)
      | Some db' \<Rightarrow> (Inr r, db'))"

section \<open>Stock Reconciliation Engine (worker.ts)\<close>

text \<open>
  The \<^verbatim>\<open>if\<close> chain that sets \<^verbatim>\<open>stockChange\<close> (lines 448-456 and 1000-1014,
  the same in both variants): positive to increase stock, negative to decrease.
\<close>

definition computeStockChange :: "bool \<Rightarrow> bool \<Rightarrow> int \<Rightarrow> int \<Rightarrow> int" where
  "computeStockChange oldStatusIsReserved newStatusIsReserved oldQty newQty =
     (if oldStatusIsReserved \<and> \<not> newStatusIsReserved then (if oldQty > 0 then oldQty else 0)
      else if \<not> oldStatusIsReserved \<and> newStatusIsReserved then (if newQty > 0 then - newQty else 0)
      else if oldStatusIsReserved \<and> newStatusIsReserved then oldQty - newQty
      else 0)"

type_synonym engine_state = "stmt list \<times> (string \<rightharpoonup> int)"

definition stockGet :: "(string \<rightharpoonup> int) \<Rightarrow> string \<Rightarrow> int" where
  "stockGet m iid = (case m iid of Some v \<Rightarrow> v | None \<Rightarrow> 0)"

text \<open>
  Lines 1016-1035 (second variant), the block under \<^verbatim>\<open>if (stockChange !== 0)\<close>:
  the state is \<^verbatim>\<open>dbOperations\<close> and \<^verbatim>\<open>currentItemStockMap\<close>.
\<close>

definition applyStockChange_v3 :: "Item \<Rightarrow> int \<Rightarrow> int \<Rightarrow> string \<Rightarrow> engine_state \<Rightarrow> error + engine_state" where
  "applyStockChange_v3 itemDetails oldQty stockChange iid st =
     (if stockChange \<noteq> 0 then
        (let currentItemStock = stockGet (snd st) iid;
             futureStock = currentItemStock + stockChange
         in if futureStock < 0 then
              Inl (InsufficientStock (item_name itemDetails) (- stockChange)
                     (currentItemStock + (if stockChange < 0 then 0 else oldQty)))
            else
              (let initialItemStock = initialStock itemDetails;
                   stockChange2 = (if futureStock > initialItemStock \<and> stockChange > 0
                                   then initialItemStock - currentItemStock else stockChange)
               in if stockChange2 \<noteq> 0 then
                    Inr (fst st @ [UpdateStockAdd stockChange2 iid],
                         (snd st)(iid \<mapsto> currentItemStock + stockChange2))
                  else Inr st))
      else Inr st)"

text \<open>Lines 458-477 (first variant): the cap has no test on the sign of the change.\<close>

definition applyStockChange_v1 :: "Item \<Rightarrow> int \<Rightarrow> int \<Rightarrow> string \<Rightarrow> engine_state \<Rightarrow> error + engine_state" where
  "applyStockChange_v1 itemDetails oldQty stockChange iid st =
     (if stockChange \<noteq> 0 then
        (let currentItemStock = stockGet (snd st) iid;
             futureStock = currentItemStock + stockChange
         in if futureStock < 0 then
              Inl (InsufficientStock (item_name itemDetails) (- stockChange) (currentItemStock + oldQty))
            else
              (let initialItemStock = initialStock itemDetails;
                   stockChange2 = (if futureStock > initialItemStock
                                   then initialItemStock - currentItemStock else stockChange)
               in if stockChange2 \<noteq> 0 then
                    Inr (fst st @ [UpdateStockAdd stockChange2 iid],
                         (snd st)(iid \<mapsto> currentItemStock + stockChange2))
                  else Inr st))
      else Inr st)"

text \<open>
  One iteration of \<^verbatim>\<open>for (const itemId of allInvolvedItemIds)\<close>. The second variant
  skips an item that is not in the Items table (\<^verbatim>\<open>continue\<close>, lines 995-998); the
  first throws (line 446).
\<close>

definition reconcileItem_v3 ::
  "SelectedItemEntry list \<Rightarrow> SelectedItemEntry list \<Rightarrow> Item list \<Rightarrow> bool \<Rightarrow> bool \<Rightarrow>
   string \<Rightarrow> engine_state \<Rightarrow> error + engine_state" where
  "reconcileItem_v3 oldItems newItems allDbItems oldRes newRes iid st =
     (let oldQty = qtyOf oldItems iid; newQty = qtyOf newItems iid
      in case findItem allDbItems iid of
           None \<Rightarrow> Inr st
         | Some itemDetails \<Rightarrow>
             applyStockChange_v3 itemDetails oldQty
               (computeStockChange oldRes newRes oldQty newQty) iid st)"

definition reconcileItem_v1 ::
  "SelectedItemEntry list \<Rightarrow> SelectedItemEntry list \<Rightarrow> Item list \<Rightarrow> bool \<Rightarrow> bool \<Rightarrow>
   string \<Rightarrow> engine_state \<Rightarrow> error + engine_state" where
  "reconcileItem_v1 oldItems newItems allDbItems oldRes newRes iid st =
     (let oldQty = qtyOf oldItems iid; newQty = qtyOf newItems iid
      in case findItem allDbItems iid of
           None \<Rightarrow> Inl (ItemNotFound iid)
         | Some itemDetails \<Rightarrow>
             applyStockChange_v1 itemDetails oldQty
               (computeStockChange oldRes newRes oldQty newQty) iid st)"

fun reconcileLoop ::
  "(string \<Rightarrow> engine_state \<Rightarrow> error + engine_state) \<Rightarrow> string list \<Rightarrow> engine_state \<Rightarrow>
   error + engine_state" where
  "reconcileLoop body [] st = Inr st"
| "reconcileLoop body (iid # rest) st =
     (case body iid st of Inl e \<Rightarrow> Inl e | Inr st' \<Rightarrow> reconcileLoop body rest st')"

text \<open>
  Steps 2 to 4 of \<^verbatim>\<open>manageRentalUpdate\<close> (lines 480-512 and 1038-1071): replace the
  item rows, recompute the costs, build \<^verbatim>\<open>finalApp\<close> and its UPDATE.
  \<^verbatim>\<open>updatedAppCore\<close> is at run time a whole application object (a spread of the
  stored one), so it has the record type of one.
\<close>

definition finishUpdate ::
  "int \<Rightarrow> Item list \<Rightarrow> RentalApplication \<Rightarrow> RentalApplication \<Rightarrow> SelectedItemEntry list \<Rightarrow>
   stmt list \<Rightarrow> RentalApplication \<times> stmt list" where
  "finishUpdate fixedDeposit allDbItems originalApp updatedAppCore newItems stockOps =
     (let costs = calculateRentalCosts newItems allDbItems fixedDeposit;
          finalApp = updatedAppCore
            \<lparr>app_id := app_id originalApp,
             items := newItems,
             totalItemCost := fst costs,
             deposit := fixedDeposit,
             totalAmount := fst costs + fixedDeposit,
             depositRefunded := depositRefunded updatedAppCore\<rparr>
      in (finalApp,
          stockOps @ [DeleteAppItems (app_id originalApp)]
            @ map (\<lambda>e. InsertAppItem (app_id originalApp) (itemId e) (quantity e)) newItems
            @ [UpdateApp finalApp]))"

definition manageRentalUpdate_v3 ::
  "int \<Rightarrow> DB \<Rightarrow> RentalApplication \<Rightarrow> RentalApplication \<Rightarrow> SelectedItemEntry list \<Rightarrow>
   error + (RentalApplication \<times> stmt list)" where
  "manageRentalUpdate_v3 fixedDeposit db originalApp updatedAppCore newItems =
     (let allDbItems = db_items db;
          oldStatusIsReserved = isReserved (status originalApp);
          newStatusIsReserved = isReserved (status updatedAppCore)
      in case reconcileLoop
                (reconcileItem_v3 (items originalApp) newItems allDbItems
                   oldStatusIsReserved newStatusIsReserved)
                (allInvolvedItemIds (items originalApp) newItems)
                ([], stockMapOf allDbItems) of
           Inl e \<Rightarrow> Inl e
         | Inr st \<Rightarrow>
             Inr (finishUpdate fixedDeposit allDbItems originalApp updatedAppCore newItems (fst st)))"

definition manageRentalUpdate_v1 ::
  "int \<Rightarrow> DB \<Rightarrow> RentalApplication \<Rightarrow> RentalApplication \<Rightarrow> SelectedItemEntry list \<Rightarrow>
   error + (RentalApplication \<times> stmt list)" where
  "manageRentalUpdate_v1 fixedDeposit db originalApp updatedAppCore newItems =
     (let allDbItems = db_items db;
          oldStatusIsReserved = isReserved (status originalApp);
          newStatusIsReserved = isReserved (status updatedAppCore)
      in case reconcileLoop
                (reconcileItem_v1 (items originalApp) newItems allDbItems
                   oldStatusIsReserved newStatusIsReserved)
                (allInvolvedItemIds (items originalApp) newItems)
                ([], stockMapOf allDbItems) of
           Inl e \<Rightarrow> Inl e
         | Inr st \<Rightarrow>
             Inr (finishUpdate fixedDeposit allDbItems originalApp updatedAppCore newItems (fst st)))"

section \<open>Application Lifecycle Controller (worker.ts)\<close>

text \<open>
  Every handler takes the store and returns its answer with the store after it. The
  sequence of awaits of one request runs against one store: no other request comes in
  between. \<open>fixedDeposit\<close> is \<^verbatim>\<open>FIXED_DEPOSIT_AMOUNT_FN(env)\<close>, \<open>newId\<close> is
  \<^verbatim>\<open>generateId('rental')\<close> and \<open>today\<close> is
  \<^verbatim>\<open>new Date().toISOString().split('T')[0]\<close>. The admin handlers take the outcome
  of \<^verbatim>\<open>directAuthCheck\<close> / \<^verbatim>\<open>authMiddleware\<close> as the flag \<open>authed\<close>.
\<close>

text \<open>JavaScript's \<^verbatim>\<open>!s\<close> on an optional string: absent, null or empty.\<close>

definition falsyStr :: "string option \<Rightarrow> bool" where
  "falsyStr s = (case s of None \<Rightarrow> True | Some v \<Rightarrow> v = [])"

definition orElse :: "'a option \<Rightarrow> 'a \<Rightarrow> 'a" where
  "orElse p d = (case p of Some v \<Rightarrow> v | None \<Rightarrow> d)"

subsection \<open>POST /api/rentals/apply, direct handler (lines 1354-1434)\<close>

text \<open>The loop of lines 1365-1379: validate against the rows read, collect the guarded UPDATEs.\<close>

fun validateStock_direct :: "Item list \<Rightarrow> SelectedItemEntry list \<Rightarrow> error + stmt list" where
  "validateStock_direct allDbItems [] = Inr []"
| "validateStock_direct allDbItems (selectedItem # rest) =
     (case findItem allDbItems (itemId selectedItem) of
        None \<Rightarrow> Inl (ItemNotFound (itemId selectedItem))
      | Some itemDetail \<Rightarrow>
          if currentStock itemDetail < quantity selectedItem then
            Inl (InsufficientStock (item_name itemDetail) (quantity selectedItem) (currentStock itemDetail))
          else
            (case validateStock_direct allDbItems rest of
               Inl e \<Rightarrow> Inl e
             | Inr stockAdjustments \<Rightarrow>
                 Inr (UpdateStockSubGuarded (quantity selectedItem) (itemId selectedItem) # stockAdjustments)))"

text \<open>\<^verbatim>\<open>{...appData, id, applicationDate, status, totalItemCost, deposit, totalAmount}\<close>\<close>

definition newApplicationOf :: "AppData \<Rightarrow> string \<Rightarrow> string \<Rightarrow> int \<Rightarrow> int \<times> int \<Rightarrow> RentalApplication" where
  "newApplicationOf appData newId today fixedDeposit costs =
     \<lparr>app_id = newId,
      applicantName = d_applicantName appData,
      phoneNumber = d_phoneNumber appData,
      studentId = d_studentId appData,
      accountHolderName = d_accountHolderName appData,
      accountNumber = d_accountNumber appData,
      rentalDate = d_rentalDate appData,
      returnDate = d_returnDate appData,
      items = d_items appData,
      totalItemCost = fst costs,
      deposit = fixedDeposit,
      totalAmount = fst costs + fixedDeposit,
      status = PENDING,
      applicationDate = today,
      rentalStaff = d_rentalStaff appData,
      returnStaff = d_returnStaff appData,
      actualReturnDate = d_actualReturnDate appData,
      depositRefunded = d_depositRefunded appData\<rparr>"

text \<open>
  Lines 1356-1411, up to the batch: what the handler computes from the rows it has read.
\<close>

definition applyPrepare ::
  "int \<Rightarrow> Item list \<Rightarrow> AppData \<Rightarrow> string \<Rightarrow> string \<Rightarrow> error + (RentalApplication \<times> stmt list)" where
  "applyPrepare fixedDeposit allDbItems appData newId today =
     (case validateStock_direct allDbItems (d_items appData) of
        Inl e \<Rightarrow> Inl e
      | Inr stockAdjustments \<Rightarrow>
          (let costs = calculateRentalCosts (d_items appData) allDbItems fixedDeposit;
               newApplication = newApplicationOf appData newId today fixedDeposit costs
           in Inr (newApplication,
                   InsertApp newApplication
                     # map (\<lambda>e. InsertAppItem newId (itemId e) (quantity e)) (items newApplication)
                     @ stockAdjustments)))"

text \<open>
  Lines 1413-1433: the batch, then \<^verbatim>\<open>for (const result of batchResults) if (!result.success) throw\<close>.
  A statement that changed no row has \<^verbatim>\<open>success: true\<close> (the item handlers of lines
  1271 and 1320 read \<^verbatim>\<open>meta.changes === 0\<close> for that case; this handler does not).
\<close>

definition applyCommit :: "DB \<Rightarrow> RentalApplication \<times> stmt list \<Rightarrow> (error + RentalApplication) \<times> DB" where
  "applyCommit db prepared = commitBatch db (fst prepared) (snd prepared)"

definition apply_direct ::
  "int \<Rightarrow> DB \<Rightarrow> AppData \<Rightarrow> string \<Rightarrow> string \<Rightarrow> (error + RentalApplication) \<times> DB" where
  "apply_direct fixedDeposit db appData newId today =
     (case applyPrepare fixedDeposit (db_items db) appData newId today of
        Inl e \<Rightarrow> (Inl e, db)
      | Inr prepared \<Rightarrow> applyCommit db prepared)"

subsection \<open>PUT /api/rentals/:id (lines 517-548 and 1496-1551)\<close>

definition userBodyInvalid :: "AppPatch \<Rightarrow> bool" where
  "userBodyInvalid body =
     (case p_items body of
        None \<Rightarrow> True
      | Some newItemsData \<Rightarrow>
          newItemsData = [] \<or> falsyStr (p_rentalDate body) \<or> falsyStr (p_returnDate body)
          \<or> orElse (p_rentalDate body) [] > orElse (p_returnDate body) [])"

definition userUpdate ::
  "(int \<Rightarrow> DB \<Rightarrow> RentalApplication \<Rightarrow> RentalApplication \<Rightarrow> SelectedItemEntry list \<Rightarrow>
     error + (RentalApplication \<times> stmt list)) \<Rightarrow>
   int \<Rightarrow> DB \<Rightarrow> string \<Rightarrow> AppPatch \<Rightarrow> (error + RentalApplication) \<times> DB" where
  "userUpdate manageRentalUpdate fixedDeposit db rentalId body =
     (if userBodyInvalid body then (Inl ValidationError, db)
      else
        (case findApp (db_rentals db) rentalId of
           None \<Rightarrow> (Inl NotFound, db)
         | Some fullOriginalApp \<Rightarrow>
             if status fullOriginalApp \<noteq> PENDING then (Inl InvalidTransition, db)
             else
               (let updatedAppCore = fullOriginalApp
                      \<lparr>rentalDate := orElse (p_rentalDate body) [],
                       returnDate := orElse (p_returnDate body) []\<rparr>
                in case manageRentalUpdate fixedDeposit db fullOriginalApp updatedAppCore
                          (orElse (p_items body) []) of
                     Inl e \<Rightarrow> (Inl e, db)
                   | Inr (finalApp, dbOperations) \<Rightarrow> commitBatch db finalApp dbOperations)))"

text \<open>The two variants differ only in the \<^verbatim>\<open>manageRentalUpdate\<close> they call.\<close>

definition userUpdate_router :: "int \<Rightarrow> DB \<Rightarrow> string \<Rightarrow> AppPatch \<Rightarrow> (error + RentalApplication) \<times> DB" where
  "userUpdate_router = userUpdate manageRentalUpdate_v1"

definition userUpdate_direct :: "int \<Rightarrow> DB \<Rightarrow> string \<Rightarrow> AppPatch \<Rightarrow> (error + RentalApplication) \<times> DB" where
  "userUpdate_direct = userUpdate manageRentalUpdate_v3"

subsection \<open>POST /api/rentals/:id/cancel, direct handler (lines 1553-1610)\<close>

definition restoreOps :: "SelectedItemEntry list \<Rightarrow> stmt list" where
  "restoreOps itemsToRestore = map (\<lambda>item. UpdateStockAdd (quantity item) (itemId item)) itemsToRestore"

definition cancel_direct :: "DB \<Rightarrow> string \<Rightarrow> (error + unit) \<times> DB" where
  "cancel_direct db rentalId =
     (case findApp (db_rentals db) rentalId of
        None \<Rightarrow> (Inl NotFound, db)
      | Some appToCancel \<Rightarrow>
          if status appToCancel \<noteq> PENDING then (Inl InvalidTransition, db)
          else commitBatch db ()
                 (restoreOps (items appToCancel) @ [DeleteAppItems rentalId, DeleteApp rentalId]))"

subsection \<open>PUT /api/admin/rentals/:id (lines 617-652 and 1698-1742)\<close>

text \<open>\<^verbatim>\<open>{...fullOriginalApp, ...adminUpdatedData, id: fullOriginalApp.id}\<close>\<close>

definition mergePatch :: "RentalApplication \<Rightarrow> AppPatch \<Rightarrow> RentalApplication" where
  "mergePatch a p =
     \<lparr>app_id = app_id a,
      applicantName = orElse (p_applicantName p) (applicantName a),
      phoneNumber = orElse (p_phoneNumber p) (phoneNumber a),
      studentId = orElse (p_studentId p) (studentId a),
      accountHolderName = orElse (p_accountHolderName p) (accountHolderName a),
      accountNumber = orElse (p_accountNumber p) (accountNumber a),
      rentalDate = orElse (p_rentalDate p) (rentalDate a),
      returnDate = orElse (p_returnDate p) (returnDate a),
      items = orElse (p_items p) (items a),
      totalItemCost = orElse (p_totalItemCost p) (totalItemCost a),
      deposit = orElse (p_deposit p) (deposit a),
      totalAmount = orElse (p_totalAmount p) (totalAmount a),
      status = orElse (p_status p) (status a),
      applicationDate = orElse (p_applicationDate p) (applicationDate a),
      rentalStaff = orElse (p_rentalStaff p) (rentalStaff a),
      returnStaff = orElse (p_returnStaff p) (returnStaff a),
      actualReturnDate = orElse (p_actualReturnDate p) (actualReturnDate a),
      depositRefunded = orElse (p_depositRefunded p) (depositRefunded a)\<rparr>"

text \<open>
  The handler, with the choice of the new item list as a parameter: the first variant has
  \<^verbatim>\<open>adminUpdatedData.items || fullOriginalApp.items\<close> (line 629; an array, even an empty
  one, is truthy), the second has \<^verbatim>\<open>fullOriginalApp.items\<close> (line 1716).
\<close>

definition adminUpdate ::
  "(int \<Rightarrow> DB \<Rightarrow> RentalApplication \<Rightarrow> RentalApplication \<Rightarrow> SelectedItemEntry list \<Rightarrow>
     error + (RentalApplication \<times> stmt list)) \<Rightarrow>
   (AppPatch \<Rightarrow> RentalApplication \<Rightarrow> SelectedItemEntry list) \<Rightarrow>
   bool \<Rightarrow> int \<Rightarrow> DB \<Rightarrow> string \<Rightarrow> AppPatch \<Rightarrow> (error + RentalApplication) \<times> DB" where
  "adminUpdate manageRentalUpdate chooseItems authed fixedDeposit db rentalId adminUpdatedData =
     (if \<not> authed then (Inl Unauthorized, db)
      else
        (case findApp (db_rentals db) rentalId of
           None \<Rightarrow> (Inl NotFound, db)
         | Some fullOriginalApp \<Rightarrow>
             (let newItemsToUse = chooseItems adminUpdatedData fullOriginalApp;
                  updatedAppCore = mergePatch fullOriginalApp adminUpdatedData
              in if status updatedAppCore = RETURNED \<and> falsyStr (actualReturnDate updatedAppCore)
                 then (Inl ValidationError, db)
                 else
                   (case manageRentalUpdate fixedDeposit db fullOriginalApp updatedAppCore newItemsToUse of
                      Inl e \<Rightarrow> (Inl e, db)
                    | Inr (finalApp, dbOperations) \<Rightarrow> commitBatch db finalApp dbOperations))))"

definition adminUpdate_router ::
  "bool \<Rightarrow> int \<Rightarrow> DB \<Rightarrow> string \<Rightarrow> AppPatch \<Rightarrow> (error + RentalApplication) \<times> DB" where
  "adminUpdate_router =
     adminUpdate manageRentalUpdate_v1 (\<lambda>adminUpdatedData fullOriginalApp.
        orElse (p_items adminUpdatedData) (items fullOriginalApp))"

definition adminUpdate_direct ::
  "bool \<Rightarrow> int \<Rightarrow> DB \<Rightarrow> string \<Rightarrow> AppPatch \<Rightarrow> (error + RentalApplication) \<times> DB" where
  "adminUpdate_direct =
     adminUpdate manageRentalUpdate_v3 (\<lambda>adminUpdatedData fullOriginalApp. items fullOriginalApp)"

subsection \<open>DELETE /api/admin/rentals/:id, direct handler (lines 1746-1814)\<close>

definition adminDelete_direct :: "bool \<Rightarrow> DB \<Rightarrow> string \<Rightarrow> (error + unit) \<times> DB" where
  "adminDelete_direct authed db rentalId =
     (if \<not> authed then (Inl Unauthorized, db)
      else
        (case findApp (db_rentals db) rentalId of
           None \<Rightarrow> (Inl NotFound, db)
         | Some appToDelete \<Rightarrow>
             commitBatch db ()
               ((if status appToDelete = PENDING \<or> status appToDelete = RENTED
                 then restoreOps (items appToDelete) else [])
                @ [DeleteAppItems rentalId, DeleteApp rentalId])))"

subsection \<open>PUT /api/items/:id, direct handler (lines 1250-1278)\<close>

text \<open>
  The UPDATE sets every column but \<^verbatim>\<open>id\<close> of the row whose id is in the path;
  \<^verbatim>\<open>meta.changes === 0\<close> is answered with 404.
\<close>

definition updateItem_direct :: "bool \<Rightarrow> DB \<Rightarrow> string \<Rightarrow> Item \<Rightarrow> (error + Item) \<times> DB" where
  "updateItem_direct authed db iid updatedItemData =
     (if \<not> authed then (Inl Unauthorized, db)
      else if currentStock updatedItemData > initialStock updatedItemData then (Inl ValidationError, db)
      else if currentStock updatedItemData < 0 \<or> initialStock updatedItemData < 0
              \<or> price updatedItemData < 0 then (Inl ValidationError, db)
      else
        (case findItem (db_items db) iid of
           None \<Rightarrow> (Inl NotFound, db)
         | Some _ \<Rightarrow>
             (Inr updatedItemData,
              db\<lparr>db_items := map (\<lambda>i. if item_id i = iid then updatedItemData\<lparr>item_id := iid\<rparr> else i)
                                 (db_items db)\<rparr>)))"

section \<open>The localStorage service (dataService.ts)\<close>

text \<open>
  \<^verbatim>\<open>getItems()\<close> and \<^verbatim>\<open>getRentalApplications()\<close> read the two arrays of the
  store, \<^verbatim>\<open>localStorage.setItem\<close> replaces one. A \<^verbatim>\<open>throw\<close> leaves the store
  as the writes before it made it, so every function returns the store it ended with.
\<close>

subsection \<open>updateItem (lines 41-49)\<close>

definition updateItem :: "DB \<Rightarrow> Item \<Rightarrow> (error + Item) \<times> DB" where
  "updateItem db updatedItem =
     (if currentStock updatedItem > initialStock updatedItem then (Inl ValidationError, db)
      else (Inr updatedItem,
            db\<lparr>db_items := map (\<lambda>item. if item_id item = item_id updatedItem then updatedItem else item)
                               (db_items db)\<rparr>))"

subsection \<open>adjustStockForItem (lines 95-117)\<close>

datatype StockOperation = Decrease | Increase

record StockAdjustment =
  adj_itemId :: string
  adj_quantity :: int
  adj_operation :: StockOperation

definition setStock :: "DB \<Rightarrow> string \<Rightarrow> Item \<Rightarrow> int \<Rightarrow> DB" where
  "setStock db iid item newStock =
     db\<lparr>db_items := map (\<lambda>i. if item_id i = iid then item\<lparr>currentStock := newStock\<rparr> else i) (db_items db)\<rparr>"

definition adjustStockForItem :: "DB \<Rightarrow> string \<Rightarrow> int \<Rightarrow> StockOperation \<Rightarrow> error + DB" where
  "adjustStockForItem db iid qty operation =
     (case findItem (db_items db) iid of
        None \<Rightarrow> Inl (ItemNotFound iid)
      | Some item \<Rightarrow>
          (case operation of
             Decrease \<Rightarrow>
               if currentStock item < qty then
                 Inl (InsufficientStock (item_name item) qty (currentStock item))
               else Inr (setStock db iid item (currentStock item - qty))
           | Increase \<Rightarrow>
               (let newStock = currentStock item + qty
                in Inr (setStock db iid item
                          (if newStock > initialStock item then initialStock item else newStock)))))"

text \<open>\<^verbatim>\<open>adjustments.forEach(adj => adjustStockForItem(adj.itemId, adj.quantity, adj.operation))\<close>\<close>

fun applyAdjustments :: "DB \<Rightarrow> StockAdjustment list \<Rightarrow> (error + unit) \<times> DB" where
  "applyAdjustments db [] = (Inr (), db)"
| "applyAdjustments db (adj # rest) =
     (case adjustStockForItem db (adj_itemId adj) (adj_quantity adj) (adj_operation adj) of
        Inl e \<Rightarrow> (Inl e, db)
      | Inr db' \<Rightarrow> applyAdjustments db' rest)"

definition adjustmentOf :: "StockOperation \<Rightarrow> SelectedItemEntry \<Rightarrow> StockAdjustment" where
  "adjustmentOf operation itemEntry =
     \<lparr>adj_itemId = itemId itemEntry, adj_quantity = quantity itemEntry, adj_operation = operation\<rparr>"

subsection \<open>addRentalApplication (lines 120-152)\<close>

fun validateStock_ds :: "Item list \<Rightarrow> SelectedItemEntry list \<Rightarrow> error option" where
  "validateStock_ds allItems [] = None"
| "validateStock_ds allItems (selectedItem # rest) =
     (case findItem allItems (itemId selectedItem) of
        None \<Rightarrow> Some (InsufficientStock ''unknown item'' (quantity selectedItem) 0)
      | Some itemDetail \<Rightarrow>
          if currentStock itemDetail < quantity selectedItem then
            Some (InsufficientStock (if item_name itemDetail = [] then ''unknown item'' else item_name itemDetail)
                    (quantity selectedItem) (currentStock itemDetail))
          else validateStock_ds allItems rest)"

definition addRentalApplication ::
  "int \<Rightarrow> DB \<Rightarrow> AppData \<Rightarrow> string \<Rightarrow> string \<Rightarrow> (error + RentalApplication) \<times> DB" where
  "addRentalApplication fixedDeposit db appData newId today =
     (let allItems = db_items db
      in case validateStock_ds allItems (d_items appData) of
           Some e \<Rightarrow> (Inl e, db)
         | None \<Rightarrow>
             (let costs = calculateRentalCosts (d_items appData) allItems fixedDeposit;
                  newApplication = (newApplicationOf appData newId today fixedDeposit costs)
                                      \<lparr>totalAmount := snd costs\<rparr>
              in case applyAdjustments db (map (adjustmentOf Decrease) (items newApplication)) of
                   (Inl e, db') \<Rightarrow> (Inl e, db')
                 | (Inr _, db') \<Rightarrow>
                     (Inr newApplication, db'\<lparr>db_rentals := db_rentals db' @ [newApplication]\<rparr>)))"

subsection \<open>updateRentalApplication (lines 155-221)\<close>

text \<open>Lines 189-197: the adjustments one involved item contributes.\<close>

definition adjustmentsFor :: "bool \<Rightarrow> bool \<Rightarrow> int \<Rightarrow> int \<Rightarrow> string \<Rightarrow> StockAdjustment list" where
  "adjustmentsFor oldStatusIsReserved newStatusIsReserved oldQty newQty iid =
     (if oldStatusIsReserved \<and> \<not> newStatusIsReserved then
        (if oldQty > 0 then [\<lparr>adj_itemId = iid, adj_quantity = oldQty, adj_operation = Increase\<rparr>] else [])
      else if \<not> oldStatusIsReserved \<and> newStatusIsReserved then
        (if newQty > 0 then [\<lparr>adj_itemId = iid, adj_quantity = newQty, adj_operation = Decrease\<rparr>] else [])
      else if oldStatusIsReserved \<and> newStatusIsReserved then
        (let delta = newQty - oldQty
         in if delta > 0 then [\<lparr>adj_itemId = iid, adj_quantity = delta, adj_operation = Decrease\<rparr>]
            else if delta < 0 then [\<lparr>adj_itemId = iid, adj_quantity = - delta, adj_operation = Increase\<rparr>]
            else [])
      else [])"

text \<open>Lines 180-198: \<^verbatim>\<open>allInvolvedItemIds.forEach\<close>, which throws at an unknown item.\<close>

fun collectAdjustments ::
  "SelectedItemEntry list \<Rightarrow> SelectedItemEntry list \<Rightarrow> Item list \<Rightarrow> bool \<Rightarrow> bool \<Rightarrow>
   string list \<Rightarrow> error + StockAdjustment list" where
  "collectAdjustments oldItems newItems allItems oldRes newRes [] = Inr []"
| "collectAdjustments oldItems newItems allItems oldRes newRes (iid # rest) =
     (case findItem allItems iid of
        None \<Rightarrow> Inl (ItemNotFound iid)
      | Some itemDetails \<Rightarrow>
          (case collectAdjustments oldItems newItems allItems oldRes newRes rest of
             Inl e \<Rightarrow> Inl e
           | Inr stockAdjustments \<Rightarrow>
               Inr (adjustmentsFor oldRes newRes (qtyOf oldItems iid) (qtyOf newItems iid) iid
                      @ stockAdjustments)))"

text \<open>Lines 201-213: the check of the decreases against \<^verbatim>\<open>tempStockLevels\<close>.\<close>

fun validateAdjustments :: "Item list \<Rightarrow> (string \<rightharpoonup> int) \<Rightarrow> StockAdjustment list \<Rightarrow> error option" where
  "validateAdjustments allItems tempStockLevels [] = None"
| "validateAdjustments allItems tempStockLevels (adj # rest) =
     (let currentTempStock = stockGet tempStockLevels (adj_itemId adj)
      in case adj_operation adj of
           Decrease \<Rightarrow>
             if currentTempStock < adj_quantity adj then
               Some (InsufficientStock
                       (case findItem allItems (adj_itemId adj) of
                          Some item \<Rightarrow> if item_name item = [] then adj_itemId adj else item_name item
                        | None \<Rightarrow> adj_itemId adj)
                       (adj_quantity adj) currentTempStock)
             else validateAdjustments allItems
                    (tempStockLevels(adj_itemId adj \<mapsto> currentTempStock - adj_quantity adj)) rest
         | Increase \<Rightarrow> validateAdjustments allItems tempStockLevels rest)"

definition updateRentalApplication ::
  "int \<Rightarrow> DB \<Rightarrow> RentalApplication \<Rightarrow> (error + RentalApplication) \<times> DB" where
  "updateRentalApplication fixedDeposit db updatedApp =
     (case findApp (db_rentals db) (app_id updatedApp) of
        None \<Rightarrow> (Inl NotFound, db)
      | Some originalApp \<Rightarrow>
          (let allItems = db_items db;
               costs = calculateRentalCosts (items updatedApp) allItems fixedDeposit;
               appWithRecalculatedCosts = updatedApp
                 \<lparr>totalItemCost := fst costs, deposit := fixedDeposit, totalAmount := snd costs\<rparr>;
               oldStatusIsReserved = isReserved (status originalApp);
               newStatusIsReserved = isReserved (status appWithRecalculatedCosts)
           in case collectAdjustments (items originalApp) (items appWithRecalculatedCosts) allItems
                     oldStatusIsReserved newStatusIsReserved
                     (allInvolvedItemIds (items originalApp) (items appWithRecalculatedCosts)) of
                Inl e \<Rightarrow> (Inl e, db)
              | Inr stockAdjustments \<Rightarrow>
                  (case validateAdjustments allItems (stockMapOf allItems) stockAdjustments of
                     Some e \<Rightarrow> (Inl e, db)
                   | None \<Rightarrow>
                       (case applyAdjustments db stockAdjustments of
                          (Inl e, db') \<Rightarrow> (Inl e, db')
                        | (Inr _, db') \<Rightarrow>
                            (Inr appWithRecalculatedCosts,
                             db'\<lparr>db_rentals :=
                                   map (\<lambda>app. if app_id app = app_id appWithRecalculatedCosts
                                               then appWithRecalculatedCosts else app)
                                       (db_rentals db')\<rparr>)))))"

subsection \<open>cancelRentalApplication (lines 223-239)\<close>

definition cancelRentalApplication :: "DB \<Rightarrow> string \<Rightarrow> (error + bool) \<times> DB" where
  "cancelRentalApplication db applicationId =
     (case findApp (db_rentals db) applicationId of
        None \<Rightarrow> (Inr False, db)
      | Some appToCancel \<Rightarrow>
          if status appToCancel = PENDING then
            (case applyAdjustments db (map (adjustmentOf Increase) (items appToCancel)) of
               (Inl e, db') \<Rightarrow> (Inl e, db')
             | (Inr _, db') \<Rightarrow>
                 (Inr True,
                  db'\<lparr>db_rentals := filter (\<lambda>r. app_id r \<noteq> applicationId) (db_rentals db')\<rparr>))
          else (Inl InvalidTransition, db))"

section \<open>Invariants of the store\<close>

text \<open>Quantities held by reserved (PENDING or RENTED) applications, per item.\<close>

definition heldBy :: "RentalApplication \<Rightarrow> string \<Rightarrow> int" where
  "heldBy a iid = (if isReserved (status a)
                    then sum_list (map quantity (filter (\<lambda>e. itemId e = iid) (items a))) else 0)"

definition reservedQty :: "RentalApplication list \<Rightarrow> string \<Rightarrow> int" where
  "reservedQty apps iid = sum_list (map (\<lambda>a. heldBy a iid) apps)"


definition stockBounds :: "DB \<Rightarrow> bool" where
  "stockBounds db = list_all checkItem (db_items db)"



section \<open>Notions used in the statements\<close>

text \<open>The stock writes of a batch: which statements are plain additions, and the sum a
  batch adds to one item.\<close>

fun isAddOp :: "stmt \<Rightarrow> bool" where
  "isAddOp (UpdateStockAdd d i) = True"
| "isAddOp _ = False"

fun deltaOf :: "string \<Rightarrow> stmt \<Rightarrow> int" where
  "deltaOf iid (UpdateStockAdd d i) = (if i = iid then d else 0)"
| "deltaOf iid _ = 0"

definition batchDelta :: "stmt list \<Rightarrow> string \<Rightarrow> int" where
  "batchDelta ops iid = sum_list (map (deltaOf iid) ops)"




definition writtenChange_v3 :: "Item \<Rightarrow> int \<Rightarrow> int \<Rightarrow> int" where
  "writtenChange_v3 it cur sc =
     (if sc > 0 \<and> cur + sc > initialStock it then initialStock it - cur else sc)"

definition writtenChange_v1 :: "Item \<Rightarrow> int \<Rightarrow> int \<Rightarrow> int" where
  "writtenChange_v1 it cur sc =
     (if sc \<noteq> 0 \<and> cur + sc > initialStock it then initialStock it - cur else sc)"

definition itemDelta ::
  "(Item \<Rightarrow> int \<Rightarrow> int \<Rightarrow> int) \<Rightarrow> SelectedItemEntry list \<Rightarrow> SelectedItemEntry list \<Rightarrow> Item list \<Rightarrow>
   bool \<Rightarrow> bool \<Rightarrow> string \<Rightarrow> int \<Rightarrow> int" where
  "itemDelta written oldItems newItems allItems oldRes newRes iid cur =
     (case findItem allItems iid of
        None \<Rightarrow> 0
      | Some it \<Rightarrow> written it cur (computeStockChange oldRes newRes (qtyOf oldItems iid) (qtyOf newItems iid)))"

definition exItem :: "string \<Rightarrow> int \<Rightarrow> int \<Rightarrow> int \<Rightarrow> Item" where
  "exItem i ini cur p =
     \<lparr>item_id = i, item_name = i, initialStock = ini, currentStock = cur, price = p,
      description = [], imageUrl = [], item_unit = ''ea''\<rparr>"

definition exEntry :: "string \<Rightarrow> int \<Rightarrow> SelectedItemEntry" where
  "exEntry i q = \<lparr>itemId = i, quantity = q\<rparr>"

definition exApp :: "string \<Rightarrow> RentalStatus \<Rightarrow> SelectedItemEntry list \<Rightarrow> int \<Rightarrow> RentalApplication" where
  "exApp a st es cost =
     \<lparr>app_id = a, applicantName = ''Kim'', phoneNumber = ''010'', studentId = ''2024'',
      accountHolderName = ''Kim'', accountNumber = ''123'', rentalDate = ''2024-05-01'',
      returnDate = ''2024-05-03'', items = es, totalItemCost = cost, deposit = 10000,
      totalAmount = cost + 10000, status = st, applicationDate = ''2024-04-30'',
      rentalStaff = None, returnStaff = None, actualReturnDate = None, depositRefunded = False\<rparr>"

definition exData :: "SelectedItemEntry list \<Rightarrow> AppData" where
  "exData es =
     \<lparr>d_applicantName = ''Kim'', d_phoneNumber = ''010'', d_studentId = ''2024'',
      d_accountHolderName = ''Kim'', d_accountNumber = ''123'', d_rentalDate = ''2024-05-01'',
      d_returnDate = ''2024-05-03'', d_items = es, d_rentalStaff = None, d_returnStaff = None,
      d_actualReturnDate = None, d_depositRefunded = False,
      d_totalItemCost = Some 1, d_deposit = Some 1, d_totalAmount = Some 1\<rparr>"

definition noPatch :: AppPatch where
  "noPatch =
     \<lparr>p_id = None, p_applicantName = None, p_phoneNumber = None, p_studentId = None,
      p_accountHolderName = None, p_accountNumber = None, p_rentalDate = None, p_returnDate = None,
      p_items = None, p_totalItemCost = None, p_deposit = None, p_totalAmount = None,
      p_status = None, p_applicationDate = None, p_rentalStaff = None, p_returnStaff = None,
      p_actualReturnDate = None, p_depositRefunded = None\<rparr>"

definition exDB :: DB where
  "exDB = \<lparr>db_items = [exItem ''A'' 10 8 3000, exItem ''B'' 4 4 500],
           db_rentals = [exApp ''r1'' PENDING [exEntry ''A'' 2] 6000]\<rparr>"

definition exBody :: "SelectedItemEntry list \<Rightarrow> AppPatch" where
  "exBody es = noPatch\<lparr>p_items := Some es, p_rentalDate := Some ''2024-05-02'',
                       p_returnDate := Some ''2024-05-04'', p_totalItemCost := Some 1,
                       p_status := Some RETURNED, p_applicantName := Some ''Lee''\<rparr>"

definition interleavedCreates ::
  "int \<Rightarrow> DB \<Rightarrow> AppData \<Rightarrow> string \<Rightarrow> AppData \<Rightarrow> string \<Rightarrow> string \<Rightarrow>
   (error + RentalApplication) \<times> (error + RentalApplication) \<times> DB" where
  "interleavedCreates fixedDeposit db req1 id1 req2 id2 today =
     (let prepared1 = applyPrepare fixedDeposit (db_items db) req1 id1 today;
          prepared2 = applyPrepare fixedDeposit (db_items db) req2 id2 today;
          answer1 = (case prepared1 of Inl e \<Rightarrow> (Inl e, db) | Inr p \<Rightarrow> applyCommit db p);
          answer2 = (case prepared2 of Inl e \<Rightarrow> (Inl e, snd answer1)
                     | Inr p \<Rightarrow> applyCommit (snd answer1) p)
      in (fst answer1, fst answer2, snd answer2))"


definition signedQty :: "StockAdjustment \<Rightarrow> int" where
  "signedQty a = (case adj_operation a of Decrease \<Rightarrow> - adj_quantity a | Increase \<Rightarrow> adj_quantity a)"



text \<open>
  The five core operations as requests to the direct handlers of worker.ts, and the store
  each leaves behind.
\<close>

datatype operation =
    Create AppData string string
  | UserEdit string AppPatch
  | UserCancel string
  | AdminEdit bool string AppPatch
  | AdminDelete bool string







definition exDB5 :: DB where
  "exDB5 = \<lparr>db_items = [exItem ''A'' 10 5 3000],
            db_rentals = [exApp ''r1'' PENDING [exEntry ''A'' 5] 15000]\<rparr>"

definition exDB9 :: DB where
  "exDB9 = \<lparr>db_items = [exItem ''A'' 10 9 3000],
            db_rentals = [exApp ''r1'' PENDING [exEntry ''A'' 5] 15000]\<rparr>"

definition exEdit :: "SelectedItemEntry list \<Rightarrow> AppPatch" where
  "exEdit es = noPatch\<lparr>p_items := Some es, p_rentalDate := Some ''2024-05-01'',
                       p_returnDate := Some ''2024-05-03''\<rparr>"

section \<open>Properties\<close>

subsection \<open>What a batch does to the store\<close>

lemma execBatch_append:
  "execBatch db (xs @ ys) = (case execBatch db xs of None \<Rightarrow> None | Some db' \<Rightarrow> execBatch db' ys)"
  by (induction xs arbitrary: db) (auto split: option.splits)


lemma insertItems_effect:
  "execBatch db (map (\<lambda>e. InsertAppItem aid (itemId e) (quantity e)) es) = Some db' \<Longrightarrow>
   db_items db' = db_items db \<and>
   db_rentals db' = map (\<lambda>r. if app_id r = aid then r\<lparr>items := items r @ es\<rparr> else r) (db_rentals db)"
proof (induction es arbitrary: db)
  case Nil
  then show ?case by (simp add: map_idI)
next
  case (Cons e es)
  then obtain db1 where s1: "execStmt db (InsertAppItem aid (itemId e) (quantity e)) = Some db1"
    and s2: "execBatch db1 (map (\<lambda>e. InsertAppItem aid (itemId e) (quantity e)) es) = Some db'"
    by (auto split: option.splits)
  from s1 have d1: "db_items db1 = db_items db"
    and r1: "db_rentals db1 = map (\<lambda>r. if app_id r = aid then r\<lparr>items := items r @ [e]\<rparr> else r) (db_rentals db)"
    by (auto split: option.splits)
  from Cons.IH[OF s2] d1 r1 show ?case by (auto simp: o_def)
qed

lemma addStock_addStock: "addStock a (addStock b i) = addStock (a + b) i"
  by (simp add: addStock_def)

lemma addStock_zero: "addStock 0 i = i"
  by (simp add: addStock_def)

lemma item_id_addStock: "item_id (addStock d i) = item_id i"
  by (simp add: addStock_def)

lemma addOps_effect:
  "list_all isAddOp ops \<Longrightarrow> execBatch db ops = Some db' \<Longrightarrow>
   db_rentals db' = db_rentals db \<and>
   db_items db' = map (\<lambda>i. addStock (batchDelta ops (item_id i)) i) (db_items db)"
proof (induction ops arbitrary: db)
  case Nil
  then show ?case by (simp add: batchDelta_def addStock_zero)
next
  case (Cons s ops)
  from Cons.prems(1) obtain d j where s: "s = UpdateStockAdd d j" and rest: "list_all isAddOp ops"
    by (cases s) auto
  from Cons.prems(2) s obtain db1 where s1: "execStmt db (UpdateStockAdd d j) = Some db1"
    and s2: "execBatch db1 ops = Some db'"
    by (auto split: option.splits)
  from s1 have r1: "db_rentals db1 = db_rentals db"
    and i1: "db_items db1 = map (\<lambda>i. if item_id i = j then addStock d i else i) (db_items db)"
    by (auto split: if_splits)
  from Cons.IH[OF rest s2] have r2: "db_rentals db' = db_rentals db1"
    and i2: "db_items db' = map (\<lambda>i. addStock (batchDelta ops (item_id i)) i) (db_items db1)"
    by auto
  have "db_items db' = map (\<lambda>i. addStock (batchDelta (s # ops) (item_id i)) i) (db_items db)"
    unfolding i2 i1 s
    by (auto simp: batchDelta_def o_def addStock_addStock item_id_addStock add.commute)
  with r1 r2 show ?case by simp
qed

lemma findApp_map_replace:
  "app_id f = aid \<Longrightarrow>
   findApp (map (\<lambda>r. if app_id r = aid then f else r) rs) aid =
     (case findApp rs aid of None \<Rightarrow> None | Some _ \<Rightarrow> Some f)"
  by (induction rs) (auto simp: findApp_def)

lemma findApp_map_other:
  "aid' \<noteq> aid \<Longrightarrow> app_id f = aid \<Longrightarrow>
   findApp (map (\<lambda>r. if app_id r = aid then f else r) rs) aid' = findApp rs aid'"
  by (induction rs) (auto simp: findApp_def)

lemma findApp_Some_id: "findApp rs aid = Some a \<Longrightarrow> app_id a = aid \<and> a \<in> set rs"
  by (induction rs) (auto simp: findApp_def split: if_splits)

lemma finishUpdate_effect:
  assumes fin: "finishUpdate dep allItems orig core newItems stockOps = (finalApp, ops)"
    and adds: "list_all isAddOp stockOps"
    and ex: "execBatch db ops = Some db'"
  shows "db_rentals db' = map (\<lambda>r. if app_id r = app_id orig then finalApp else r) (db_rentals db)"
    and "db_items db' = map (\<lambda>i. addStock (batchDelta stockOps (item_id i)) i) (db_items db)"
    and "app_id finalApp = app_id orig" and "items finalApp = newItems"
proof -
  let ?aid = "app_id orig"
  from fin have fa: "app_id finalApp = ?aid" and fi: "items finalApp = newItems"
    and ops: "ops = stockOps @ [DeleteAppItems ?aid]
                @ map (\<lambda>e. InsertAppItem ?aid (itemId e) (quantity e)) newItems @ [UpdateApp finalApp]"
    by (auto simp: finishUpdate_def Let_def)
  from ex ops obtain db1 where e1: "execBatch db stockOps = Some db1"
    and e2: "execBatch db1 ([DeleteAppItems ?aid]
                @ map (\<lambda>e. InsertAppItem ?aid (itemId e) (quantity e)) newItems @ [UpdateApp finalApp]) = Some db'"
    by (auto simp: execBatch_append split: option.splits)
  from addOps_effect[OF adds e1] have r1: "db_rentals db1 = db_rentals db"
    and i1: "db_items db1 = map (\<lambda>i. addStock (batchDelta stockOps (item_id i)) i) (db_items db)" by auto
  from e2 obtain db2 where e3: "execStmt db1 (DeleteAppItems ?aid) = Some db2"
    and e4: "execBatch db2 (map (\<lambda>e. InsertAppItem ?aid (itemId e) (quantity e)) newItems @ [UpdateApp finalApp]) = Some db'"
    by (auto split: option.splits)
  from e4 obtain db3 where e5: "execBatch db2 (map (\<lambda>e. InsertAppItem ?aid (itemId e) (quantity e)) newItems) = Some db3"
    and e6: "execStmt db3 (UpdateApp finalApp) = Some db'"
    by (auto simp: execBatch_append split: option.splits)
  from e3 have r2: "db_rentals db2 = map (\<lambda>a. if app_id a = ?aid then a\<lparr>items := []\<rparr> else a) (db_rentals db1)"
    and i2: "db_items db2 = db_items db1" by auto
  from insertItems_effect[OF e5] have i3: "db_items db3 = db_items db2"
    and r3: "db_rentals db3 = map (\<lambda>r. if app_id r = ?aid then r\<lparr>items := items r @ newItems\<rparr> else r) (db_rentals db2)"
    by auto
  from e6 fa have r4: "db_rentals db' = map (\<lambda>a. if app_id a = ?aid then finalApp\<lparr>items := items a\<rparr> else a) (db_rentals db3)"
    and i4: "db_items db' = db_items db3" by auto
  have "finalApp\<lparr>items := newItems\<rparr> = finalApp" using fi by simp
  then show "db_rentals db' = map (\<lambda>r. if app_id r = app_id orig then finalApp else r) (db_rentals db)"
    unfolding r4 r3 r2 r1 by (auto simp: o_def)
  show "db_items db' = map (\<lambda>i. addStock (batchDelta stockOps (item_id i)) i) (db_items db)"
    using i4 i3 i2 i1 by simp
  show "app_id finalApp = app_id orig" by (rule fa)
  show "items finalApp = newItems" by (rule fi)
qed





text \<open>The loop of the engine, for any body that writes at most one addition to its own item.\<close>

lemma reconcileLoop_writes:
  assumes body: "\<And>j ops m ops' m'. body j (ops, m) = Inr (ops', m') \<Longrightarrow>
            ops' = ops @ (if delta j (stockGet m j) = 0 then [] else [UpdateStockAdd (delta j (stockGet m j)) j])
            \<and> (\<forall>k. k \<noteq> j \<longrightarrow> m' k = m k)"
  shows "distinct ids \<Longrightarrow> reconcileLoop body ids (ops, m) = Inr (ops', m') \<Longrightarrow>
         \<exists>added. ops' = ops @ added \<and> list_all isAddOp added \<and>
           (\<forall>iid. batchDelta added iid = (if iid \<in> set ids then delta iid (stockGet m iid) else 0)) \<and>
           (\<forall>iid d. UpdateStockAdd d iid \<in> set added \<longrightarrow> iid \<in> set ids \<and> d = delta iid (stockGet m iid) \<and> d \<noteq> 0)"
proof (induction ids arbitrary: ops m)
  case Nil
  then show ?case by (simp add: batchDelta_def)
next
  case (Cons j ids)
  from Cons.prems(2) obtain ops1 m1 where b: "body j (ops, m) = Inr (ops1, m1)"
    and l: "reconcileLoop body ids (ops1, m1) = Inr (ops', m')"
    by (auto split: sum.splits)
  let ?w = "if delta j (stockGet m j) = 0 then [] else [UpdateStockAdd (delta j (stockGet m j)) j]"
  from body[OF b] have o1: "ops1 = ops @ ?w" and m1: "\<And>k. k \<noteq> j \<Longrightarrow> m1 k = m k" by auto
  from Cons.prems(1) have dj: "j \<notin> set ids" and di: "distinct ids" by auto
  from Cons.IH[OF di l] obtain added where
    a1: "ops' = ops1 @ added" and a2: "list_all isAddOp added"
    and a3: "\<And>iid. batchDelta added iid = (if iid \<in> set ids then delta iid (stockGet m1 iid) else 0)"
    and a4: "\<And>iid d. UpdateStockAdd d iid \<in> set added \<Longrightarrow> iid \<in> set ids \<and> d = delta iid (stockGet m1 iid) \<and> d \<noteq> 0"
    by blast
  have sg: "stockGet m1 k = stockGet m k" if "k \<in> set ids" for k
  proof -
    from that dj have "k \<noteq> j" by auto
    then show ?thesis by (simp add: stockGet_def m1)
  qed
  have "ops' = ops @ (?w @ added)" using a1 o1 by simp
  moreover have "list_all isAddOp (?w @ added)" using a2 by simp
  moreover have "\<forall>iid. batchDelta (?w @ added) iid = (if iid \<in> set (j # ids) then delta iid (stockGet m iid) else 0)"
    using a3 sg dj by (auto simp: batchDelta_def)
  moreover have "\<forall>iid d. UpdateStockAdd d iid \<in> set (?w @ added) \<longrightarrow>
       iid \<in> set (j # ids) \<and> d = delta iid (stockGet m iid) \<and> d \<noteq> 0"
  proof (intro allI impI)
    fix iid d assume mem: "UpdateStockAdd d iid \<in> set (?w @ added)"
    show "iid \<in> set (j # ids) \<and> d = delta iid (stockGet m iid) \<and> d \<noteq> 0"
    proof (cases "UpdateStockAdd d iid \<in> set added")
      case True
      from a4[OF True] sg[of iid] show ?thesis by simp
    next
      case False
      with mem have "UpdateStockAdd d iid \<in> set ?w" by simp
      then show ?thesis by (auto split: if_splits)
    qed
  qed
  ultimately show ?case by blast
qed

lemma applyStockChange_v3_Inr:
  "applyStockChange_v3 it oq sc j (ops, m) = Inr (ops', m') \<Longrightarrow>
   ops' = ops @ (if writtenChange_v3 it (stockGet m j) sc = 0 then []
                 else [UpdateStockAdd (writtenChange_v3 it (stockGet m j) sc) j])
   \<and> (\<forall>k. k \<noteq> j \<longrightarrow> m' k = m k)"
  by (auto simp: applyStockChange_v3_def writtenChange_v3_def Let_def split: if_splits)

lemma applyStockChange_v1_Inr:
  "applyStockChange_v1 it oq sc j (ops, m) = Inr (ops', m') \<Longrightarrow>
   ops' = ops @ (if writtenChange_v1 it (stockGet m j) sc = 0 then []
                 else [UpdateStockAdd (writtenChange_v1 it (stockGet m j) sc) j])
   \<and> (\<forall>k. k \<noteq> j \<longrightarrow> m' k = m k)"
  by (auto simp: applyStockChange_v1_def writtenChange_v1_def Let_def split: if_splits)

lemma reconcileItem_v3_Inr:
  "reconcileItem_v3 old new allItems oR nR j (ops, m) = Inr (ops', m') \<Longrightarrow>
   ops' = ops @ (if itemDelta writtenChange_v3 old new allItems oR nR j (stockGet m j) = 0 then []
                 else [UpdateStockAdd (itemDelta writtenChange_v3 old new allItems oR nR j (stockGet m j)) j])
   \<and> (\<forall>k. k \<noteq> j \<longrightarrow> m' k = m k)"
  unfolding reconcileItem_v3_def itemDelta_def Let_def
  by (cases "findItem allItems j") (auto dest!: applyStockChange_v3_Inr simp: writtenChange_v3_def)

lemma reconcileItem_v1_Inr:
  "reconcileItem_v1 old new allItems oR nR j (ops, m) = Inr (ops', m') \<Longrightarrow>
   ops' = ops @ (if itemDelta writtenChange_v1 old new allItems oR nR j (stockGet m j) = 0 then []
                 else [UpdateStockAdd (itemDelta writtenChange_v1 old new allItems oR nR j (stockGet m j)) j])
   \<and> (\<forall>k. k \<noteq> j \<longrightarrow> m' k = m k)"
  unfolding reconcileItem_v1_def itemDelta_def Let_def
  by (cases "findItem allItems j") (auto dest!: applyStockChange_v1_Inr simp: writtenChange_v1_def)

lemma setAdd_fold_set: "set (foldl setAdd acc xs) = set acc \<union> set xs"
  by (induction xs arbitrary: acc) (auto simp: setAdd_def)

lemma setAdd_fold_distinct: "distinct acc \<Longrightarrow> distinct (foldl setAdd acc xs)"
  by (induction xs arbitrary: acc) (auto simp: setAdd_def)

lemma allInvolved_set: "set (allInvolvedItemIds old new) = itemId ` set old \<union> itemId ` set new"
  by (simp add: allInvolvedItemIds_def setAdd_fold_set)

lemma allInvolved_distinct: "distinct (allInvolvedItemIds old new)"
  by (simp add: allInvolvedItemIds_def setAdd_fold_distinct)

lemma manage_v3_Inr:
  assumes "manageRentalUpdate_v3 dep db orig core new = Inr (fa, ops)"
  shows "\<exists>stockOps. finishUpdate dep (db_items db) orig core new stockOps = (fa, ops)
           \<and> list_all isAddOp stockOps
           \<and> (\<forall>iid. batchDelta stockOps iid =
                 (if iid \<in> itemId ` set (items orig) \<union> itemId ` set new
                  then itemDelta writtenChange_v3 (items orig) new (db_items db)
                         (isReserved (status orig)) (isReserved (status core)) iid
                         (stockGet (stockMapOf (db_items db)) iid)
                  else 0))
           \<and> (\<forall>iid d. UpdateStockAdd d iid \<in> set stockOps \<longrightarrow>
                 d = itemDelta writtenChange_v3 (items orig) new (db_items db)
                         (isReserved (status orig)) (isReserved (status core)) iid
                         (stockGet (stockMapOf (db_items db)) iid) \<and> d \<noteq> 0)"
proof -
  let ?body = "reconcileItem_v3 (items orig) new (db_items db) (isReserved (status orig)) (isReserved (status core))"
  from assms obtain st where l: "reconcileLoop ?body (allInvolvedItemIds (items orig) new) ([], stockMapOf (db_items db)) = Inr st"
    and f: "finishUpdate dep (db_items db) orig core new (fst st) = (fa, ops)"
    by (auto simp: manageRentalUpdate_v3_def Let_def split: sum.splits)
  obtain so m' where st: "st = (so, m')" by (cases st)
  from reconcileLoop_writes[of ?body "itemDelta writtenChange_v3 (items orig) new (db_items db) (isReserved (status orig)) (isReserved (status core))",
      OF reconcileItem_v3_Inr allInvolved_distinct l[unfolded st]]
  obtain added where a: "so = [] @ added" "list_all isAddOp added"
    and b: "\<forall>iid. batchDelta added iid =
          (if iid \<in> set (allInvolvedItemIds (items orig) new)
           then itemDelta writtenChange_v3 (items orig) new (db_items db) (isReserved (status orig))
                  (isReserved (status core)) iid (stockGet (stockMapOf (db_items db)) iid) else 0)"
    and c: "\<forall>iid d. UpdateStockAdd d iid \<in> set added \<longrightarrow>
          iid \<in> set (allInvolvedItemIds (items orig) new) \<and>
          d = itemDelta writtenChange_v3 (items orig) new (db_items db) (isReserved (status orig))
                  (isReserved (status core)) iid (stockGet (stockMapOf (db_items db)) iid) \<and> d \<noteq> 0"
    by blast
  from a have so: "so = added" by simp
  show ?thesis
    apply (rule exI[of _ so])
    using f st a(2) b c unfolding so allInvolved_set by simp
qed

lemma manage_v1_Inr:
  assumes "manageRentalUpdate_v1 dep db orig core new = Inr (fa, ops)"
  shows "\<exists>stockOps. finishUpdate dep (db_items db) orig core new stockOps = (fa, ops)
           \<and> list_all isAddOp stockOps
           \<and> (\<forall>iid. batchDelta stockOps iid =
                 (if iid \<in> itemId ` set (items orig) \<union> itemId ` set new
                  then itemDelta writtenChange_v1 (items orig) new (db_items db)
                         (isReserved (status orig)) (isReserved (status core)) iid
                         (stockGet (stockMapOf (db_items db)) iid)
                  else 0))
           \<and> (\<forall>iid d. UpdateStockAdd d iid \<in> set stockOps \<longrightarrow>
                 d = itemDelta writtenChange_v1 (items orig) new (db_items db)
                         (isReserved (status orig)) (isReserved (status core)) iid
                         (stockGet (stockMapOf (db_items db)) iid) \<and> d \<noteq> 0)"
proof -
  let ?body = "reconcileItem_v1 (items orig) new (db_items db) (isReserved (status orig)) (isReserved (status core))"
  from assms obtain st where l: "reconcileLoop ?body (allInvolvedItemIds (items orig) new) ([], stockMapOf (db_items db)) = Inr st"
    and f: "finishUpdate dep (db_items db) orig core new (fst st) = (fa, ops)"
    by (auto simp: manageRentalUpdate_v1_def Let_def split: sum.splits)
  obtain so m' where st: "st = (so, m')" by (cases st)
  from reconcileLoop_writes[of ?body "itemDelta writtenChange_v1 (items orig) new (db_items db) (isReserved (status orig)) (isReserved (status core))",
      OF reconcileItem_v1_Inr allInvolved_distinct l[unfolded st]]
  obtain added where a: "so = [] @ added" "list_all isAddOp added"
    and b: "\<forall>iid. batchDelta added iid =
          (if iid \<in> set (allInvolvedItemIds (items orig) new)
           then itemDelta writtenChange_v1 (items orig) new (db_items db) (isReserved (status orig))
                  (isReserved (status core)) iid (stockGet (stockMapOf (db_items db)) iid) else 0)"
    and c: "\<forall>iid d. UpdateStockAdd d iid \<in> set added \<longrightarrow>
          iid \<in> set (allInvolvedItemIds (items orig) new) \<and>
          d = itemDelta writtenChange_v1 (items orig) new (db_items db) (isReserved (status orig))
                  (isReserved (status core)) iid (stockGet (stockMapOf (db_items db)) iid) \<and> d \<noteq> 0"
    by blast
  from a have so: "so = added" by simp
  show ?thesis
    apply (rule exI[of _ so])
    using f st a(2) b c unfolding so allInvolved_set by simp
qed

lemma commitBatch_Inr: "commitBatch db r ops = (Inr r', db') \<Longrightarrow> r' = r \<and> execBatch db ops = Some db'"
  by (auto simp: commitBatch_def split: option.splits)


lemma userUpdate_Inr:
  assumes "userUpdate mru dep db rid body = (Inr app, db')"
  shows "\<exists>orig newItems rd rt ops.
           p_items body = Some newItems \<and> newItems \<noteq> [] \<and> p_rentalDate body = Some rd
           \<and> p_returnDate body = Some rt \<and> rd \<noteq> [] \<and> rt \<noteq> [] \<and> \<not> rd > rt
           \<and> findApp (db_rentals db) rid = Some orig \<and> status orig = PENDING
           \<and> mru dep db orig (orig\<lparr>rentalDate := rd, returnDate := rt\<rparr>) newItems = Inr (app, ops)
           \<and> execBatch db ops = Some db'"
  using assms
  by (auto simp: userUpdate_def userBodyInvalid_def falsyStr_def orElse_def Let_def
           split: option.splits if_splits sum.splits dest!: commitBatch_Inr)

lemma adminUpdate_Inr:
  assumes "adminUpdate mru chooseItems authed dep db rid patch = (Inr app, db')"
  shows "\<exists>orig ops.
           authed \<and> findApp (db_rentals db) rid = Some orig
           \<and> \<not> (status (mergePatch orig patch) = RETURNED \<and> falsyStr (actualReturnDate (mergePatch orig patch)))
           \<and> mru dep db orig (mergePatch orig patch) (chooseItems patch orig) = Inr (app, ops)
           \<and> execBatch db ops = Some db'"
  using assms
  by (auto simp: adminUpdate_def Let_def
           split: option.splits if_splits sum.splits dest!: commitBatch_Inr)


lemma finishUpdate_persisted:
  assumes fin: "finishUpdate dep allItems orig core newItems stockOps = (finalApp, ops)"
    and adds: "list_all isAddOp stockOps"
    and ex: "execBatch db ops = Some db'"
    and f: "findApp (db_rentals db) rid = Some orig"
  shows "findApp (db_rentals db') rid = Some finalApp"
proof -
  from f have id: "app_id orig = rid" by (simp add: findApp_Some_id)
  from finishUpdate_effect(1,3)[OF fin adds ex] id f show ?thesis
    by (simp add: findApp_map_replace)
qed



lemma applyAdjustments_Inr_rentals:
  "applyAdjustments db adjs = (r, db') \<Longrightarrow> db_rentals db' = db_rentals db"
proof (induction adjs arbitrary: db)
  case Nil
  then show ?case by simp
next
  case (Cons a adjs)
  show ?case
  proof (cases "adjustStockForItem db (adj_itemId a) (adj_quantity a) (adj_operation a)")
    case (Inl e)
    with Cons.prems show ?thesis by simp
  next
    case (Inr db1)
    then have "db_rentals db1 = db_rentals db"
      by (auto simp: adjustStockForItem_def setStock_def Let_def split: option.splits StockOperation.splits if_splits)
    with Cons.IH[of db1] Cons.prems Inr show ?thesis by simp
  qed
qed


lemma updateRentalApplication_Inr:
  assumes "updateRentalApplication dep db upd = (Inr app, db')"
  shows "\<exists>orig adjs. findApp (db_rentals db) (app_id upd) = Some orig
         \<and> app = upd\<lparr>totalItemCost := fst (calculateRentalCosts (items upd) (db_items db) dep),
                      deposit := dep,
                      totalAmount := snd (calculateRentalCosts (items upd) (db_items db) dep)\<rparr>
         \<and> collectAdjustments (items orig) (items upd) (db_items db) (isReserved (status orig))
               (isReserved (status upd)) (allInvolvedItemIds (items orig) (items upd)) = Inr adjs
         \<and> validateAdjustments (db_items db) (stockMapOf (db_items db)) adjs = None
         \<and> applyAdjustments db adjs = (Inr (), db'\<lparr>db_rentals := db_rentals db\<rparr>)
         \<and> db_rentals db' = map (\<lambda>a. if app_id a = app_id upd then app else a) (db_rentals db)"
proof -
  from assms obtain orig where f: "findApp (db_rentals db) (app_id upd) = Some orig"
    by (auto simp: updateRentalApplication_def split: option.splits)
  let ?costs = "calculateRentalCosts (items upd) (db_items db) dep"
  let ?app = "upd\<lparr>totalItemCost := fst ?costs, deposit := dep, totalAmount := snd ?costs\<rparr>"
  from assms f obtain adjs where c: "collectAdjustments (items orig) (items upd) (db_items db) (isReserved (status orig))
               (isReserved (status upd)) (allInvolvedItemIds (items orig) (items upd)) = Inr adjs"
    by (auto simp: updateRentalApplication_def Let_def split: sum.splits)
  from assms f c have v: "validateAdjustments (db_items db) (stockMapOf (db_items db)) adjs = None"
    by (auto simp: updateRentalApplication_def Let_def split: option.splits)
  obtain r db1 where a: "applyAdjustments db adjs = (r, db1)" by (cases "applyAdjustments db adjs")
  from applyAdjustments_Inr_rentals[OF a] have r1: "db_rentals db1 = db_rentals db" .
  from assms f c v a have "r = Inr () \<and> app = ?app
      \<and> db' = db1\<lparr>db_rentals := map (\<lambda>a. if app_id a = app_id upd then ?app else a) (db_rentals db1)\<rparr>"
    by (cases r) (auto simp: updateRentalApplication_def Let_def)
  with f c v a r1 show ?thesis by auto
qed


lemmas ex_defs = exDB_def exItem_def exEntry_def exApp_def exData_def noPatch_def exBody_def

lemmas eval_defs = findItem_def findEntry_def findApp_def qtyOf_def setAdd_def allInvolvedItemIds_def
  stockMapOf_def addCost_def calculateRentalCosts_def checkItem_def addStock_def commitBatch_def
  computeStockChange_def stockGet_def applyStockChange_v3_def applyStockChange_v1_def
  reconcileItem_v3_def reconcileItem_v1_def finishUpdate_def manageRentalUpdate_v3_def
  manageRentalUpdate_v1_def falsyStr_def orElse_def newApplicationOf_def applyPrepare_def
  applyCommit_def apply_direct_def userBodyInvalid_def userUpdate_def userUpdate_router_def
  userUpdate_direct_def restoreOps_def cancel_direct_def mergePatch_def adminUpdate_def
  adminUpdate_router_def adminUpdate_direct_def adminDelete_direct_def updateItem_direct_def
  updateItem_def setStock_def adjustStockForItem_def adjustmentOf_def addRentalApplication_def
  adjustmentsFor_def updateRentalApplication_def cancelRentalApplication_def isReserved_def
  Let_def


text \<open>
  C10. A user edit that succeeds, in either variant, persists the stored application with
  new rentalDate, returnDate and items (the three fields the handler reads from the body)
  and recomputed totalItemCost, deposit and totalAmount. Its id, status, applicant identity,
  account fields, applicationDate, staff fields, actualReturnDate and depositRefunded are
  those of the stored application, whatever else the body contains; no other application
  changes.
\<close>

theorem user_edit_frame:
  assumes "userUpdate_direct fixedDeposit db rid body = (Inr app, db')
           \<or> userUpdate_router fixedDeposit db rid body = (Inr app, db')"
  shows "\<exists>orig. findApp (db_rentals db) rid = Some orig
           \<and> findApp (db_rentals db') rid = Some app
           \<and> app = orig\<lparr>rentalDate := orElse (p_rentalDate body) [],
                         returnDate := orElse (p_returnDate body) [],
                         items := orElse (p_items body) [],
                         totalItemCost := fst (calculateRentalCosts (orElse (p_items body) []) (db_items db) fixedDeposit),
                         deposit := fixedDeposit,
                         totalAmount := snd (calculateRentalCosts (orElse (p_items body) []) (db_items db) fixedDeposit)\<rparr>
           \<and> app_id app = app_id orig \<and> status app = status orig
           \<and> applicantName app = applicantName orig \<and> studentId app = studentId orig
           \<and> phoneNumber app = phoneNumber orig
           \<and> accountHolderName app = accountHolderName orig \<and> accountNumber app = accountNumber orig
           \<and> applicationDate app = applicationDate orig
           \<and> rentalStaff app = rentalStaff orig \<and> returnStaff app = returnStaff orig
           \<and> actualReturnDate app = actualReturnDate orig
           \<and> depositRefunded app = depositRefunded orig
           \<and> (\<forall>other. other \<noteq> rid \<longrightarrow> findApp (db_rentals db') other = findApp (db_rentals db) other)"
proof -
  from assms obtain orig newItems rd rt ops so where
    b: "p_items body = Some newItems" "p_rentalDate body = Some rd" "p_returnDate body = Some rt"
       "findApp (db_rentals db) rid = Some orig" "execBatch db ops = Some db'"
    and c: "finishUpdate fixedDeposit (db_items db) orig (orig\<lparr>rentalDate := rd, returnDate := rt\<rparr>) newItems so = (app, ops)"
       "list_all isAddOp so"
  proof
    assume a: "userUpdate_direct fixedDeposit db rid body = (Inr app, db')"
    from userUpdate_Inr[OF a[unfolded userUpdate_direct_def]] obtain orig newItems rd rt ops where
      b: "p_items body = Some newItems" "p_rentalDate body = Some rd" "p_returnDate body = Some rt"
       "findApp (db_rentals db) rid = Some orig" "execBatch db ops = Some db'"
       "manageRentalUpdate_v3 fixedDeposit db orig (orig\<lparr>rentalDate := rd, returnDate := rt\<rparr>) newItems = Inr (app, ops)"
      by blast
    from manage_v3_Inr[OF b(6)] b that show thesis by blast
  next
    assume a: "userUpdate_router fixedDeposit db rid body = (Inr app, db')"
    from userUpdate_Inr[OF a[unfolded userUpdate_router_def]] obtain orig newItems rd rt ops where
      b: "p_items body = Some newItems" "p_rentalDate body = Some rd" "p_returnDate body = Some rt"
       "findApp (db_rentals db) rid = Some orig" "execBatch db ops = Some db'"
       "manageRentalUpdate_v1 fixedDeposit db orig (orig\<lparr>rentalDate := rd, returnDate := rt\<rparr>) newItems = Inr (app, ops)"
      by blast
    from manage_v1_Inr[OF b(6)] b that show thesis by blast
  qed
  from b(4) have id: "app_id orig = rid" by (simp add: findApp_Some_id)
  have p: "findApp (db_rentals db') rid = Some app"
    by (rule finishUpdate_persisted[OF c b(5) b(4)])
  have e: "app = orig\<lparr>rentalDate := rd, returnDate := rt, items := newItems,
                       totalItemCost := fst (calculateRentalCosts newItems (db_items db) fixedDeposit),
                       deposit := fixedDeposit,
                       totalAmount := snd (calculateRentalCosts newItems (db_items db) fixedDeposit)\<rparr>"
    using c(1) by (auto simp: finishUpdate_def Let_def calculateRentalCosts_def)
  have o: "findApp (db_rentals db') other = findApp (db_rentals db) other" if "other \<noteq> rid" for other
    using finishUpdate_effect(1,3)[OF c b(5)] that id by (simp add: findApp_map_other)
  show ?thesis
    apply (rule exI[of _ orig])
    using b(1-4) p o by (simp add: orElse_def e)
qed

theorem user_edit_frame_witness:
  "\<exists>app db'. userUpdate_direct 10000 exDB ''r1'' (exBody [exEntry ''A'' 5, exEntry ''B'' 1]) = (Inr app, db')
     \<and> findApp (db_rentals db') ''r1'' = Some app
     \<and> status app = PENDING \<and> applicantName app = ''Kim''
     \<and> items app = [exEntry ''A'' 5, exEntry ''B'' 1] \<and> rentalDate app = ''2024-05-02''"
proof -
  obtain a d where h: "userUpdate_direct 10000 exDB ''r1'' (exBody [exEntry ''A'' 5, exEntry ''B'' 1]) = (Inr a, d)"
    by (simp add: ex_defs eval_defs)
  have f: "findApp (db_rentals exDB) ''r1'' = Some (exApp ''r1'' PENDING [exEntry ''A'' 2] 6000)"
    by (simp add: exDB_def findApp_def exApp_def)
  from user_edit_frame[OF disjI1, OF h] f h show ?thesis
    by (auto simp: exApp_def exBody_def orElse_def)
qed

text \<open>
  C7. The direct handler answers an admin update that carries an items array with the
  stored item list, and leaves the store's list as it was: on a store where application r1
  holds 2 of item A, a body with items = [A:5] is answered with items = [A:2] and nothing
  in the store changes.
\<close>

theorem admin_items_ignored_counterexample:
  "adminUpdate_direct True 10000 exDB ''r1'' (noPatch\<lparr>p_items := Some [exEntry ''A'' 5]\<rparr>)
     = (Inr (exApp ''r1'' PENDING [exEntry ''A'' 2] 6000), exDB)"
  by (simp add: ex_defs eval_defs)

text \<open>
  C7, variant by variant. In the itty-router variant an admin update whose body has an items array
  runs the engine of that variant on the stored application and that array, answers with
  the array as the item list and persists the answer. In the direct-handler variant the
  engine runs on the stored list against itself, and the answer and the persisted
  application keep the stored list, whatever the body's items are.
\<close>

theorem admin_items_by_variant:
  "(adminUpdate_router authed fixedDeposit db rid patch = (Inr app1, db1) \<and> p_items patch = Some newItems
      \<longrightarrow> (\<exists>orig ops. findApp (db_rentals db) rid = Some orig
             \<and> manageRentalUpdate_v1 fixedDeposit db orig (mergePatch orig patch) newItems = Inr (app1, ops)
             \<and> execBatch db ops = Some db1
             \<and> items app1 = newItems
             \<and> findApp (db_rentals db1) rid = Some app1))
   \<and> (adminUpdate_direct authed fixedDeposit db rid patch = (Inr app2, db2)
      \<longrightarrow> (\<exists>orig ops. findApp (db_rentals db) rid = Some orig
             \<and> manageRentalUpdate_v3 fixedDeposit db orig (mergePatch orig patch) (items orig) = Inr (app2, ops)
             \<and> execBatch db ops = Some db2
             \<and> items app2 = items orig
             \<and> findApp (db_rentals db2) rid = Some app2))"
proof (intro conjI impI)
  assume a: "adminUpdate_router authed fixedDeposit db rid patch = (Inr app1, db1) \<and> p_items patch = Some newItems"
  from adminUpdate_Inr[OF a[THEN conjunct1, unfolded adminUpdate_router_def]] a obtain orig ops where
    b: "findApp (db_rentals db) rid = Some orig"
       "manageRentalUpdate_v1 fixedDeposit db orig (mergePatch orig patch) newItems = Inr (app1, ops)"
       "execBatch db ops = Some db1" by (auto simp: orElse_def)
  from manage_v1_Inr[OF b(2)] obtain so where
    c: "finishUpdate fixedDeposit (db_items db) orig (mergePatch orig patch) newItems so = (app1, ops)"
       "list_all isAddOp so" by blast
  from finishUpdate_effect(4)[OF c b(3)] finishUpdate_persisted[OF c b(3) b(1)] b
  show "\<exists>orig ops. findApp (db_rentals db) rid = Some orig
             \<and> manageRentalUpdate_v1 fixedDeposit db orig (mergePatch orig patch) newItems = Inr (app1, ops)
             \<and> execBatch db ops = Some db1
             \<and> items app1 = newItems
             \<and> findApp (db_rentals db1) rid = Some app1" by blast
next
  assume a: "adminUpdate_direct authed fixedDeposit db rid patch = (Inr app2, db2)"
  from adminUpdate_Inr[OF a[unfolded adminUpdate_direct_def]] obtain orig ops where
    b: "findApp (db_rentals db) rid = Some orig"
       "manageRentalUpdate_v3 fixedDeposit db orig (mergePatch orig patch) (items orig) = Inr (app2, ops)"
       "execBatch db ops = Some db2" by blast
  from manage_v3_Inr[OF b(2)] obtain so where
    c: "finishUpdate fixedDeposit (db_items db) orig (mergePatch orig patch) (items orig) so = (app2, ops)"
       "list_all isAddOp so" by blast
  from finishUpdate_effect(4)[OF c b(3)] finishUpdate_persisted[OF c b(3) b(1)] b
  show "\<exists>orig ops. findApp (db_rentals db) rid = Some orig
             \<and> manageRentalUpdate_v3 fixedDeposit db orig (mergePatch orig patch) (items orig) = Inr (app2, ops)
             \<and> execBatch db ops = Some db2
             \<and> items app2 = items orig
             \<and> findApp (db_rentals db2) rid = Some app2" by blast
qed

theorem admin_items_by_variant_witness:
  "(\<exists>app db'. adminUpdate_router True 10000 exDB ''r1'' (noPatch\<lparr>p_items := Some [exEntry ''A'' 5]\<rparr>) = (Inr app, db')
       \<and> items app = [exEntry ''A'' 5] \<and> findApp (db_rentals db') ''r1'' = Some app
       \<and> map currentStock (db_items db') = [5, 4])
   \<and> (\<exists>app db'. adminUpdate_direct True 10000 exDB ''r1'' (noPatch\<lparr>p_items := Some [exEntry ''A'' 5]\<rparr>) = (Inr app, db')
       \<and> items app = [exEntry ''A'' 2] \<and> findApp (db_rentals db') ''r1'' = Some app
       \<and> map currentStock (db_items db') = [8, 4])"
proof -
  let ?p = "noPatch\<lparr>p_items := Some [exEntry ''A'' 5]\<rparr>"
  obtain a1 d1 where h1: "adminUpdate_router True 10000 exDB ''r1'' ?p = (Inr a1, d1)"
    and s1: "map currentStock (db_items d1) = [5, 4]"
    by (simp add: ex_defs eval_defs)
  obtain a2 d2 where h2: "adminUpdate_direct True 10000 exDB ''r1'' ?p = (Inr a2, d2)"
    and s2: "map currentStock (db_items d2) = [8, 4]"
    by (simp add: ex_defs eval_defs)
  have p: "p_items ?p = Some [exEntry ''A'' 5]" by simp
  have f: "findApp (db_rentals exDB) ''r1'' = Some (exApp ''r1'' PENDING [exEntry ''A'' 2] 6000)"
    by (simp add: exDB_def findApp_def exApp_def)
  have i: "items (exApp ''r1'' PENDING [exEntry ''A'' 2] 6000) = [exEntry ''A'' 2]" by (simp add: exApp_def)
  note t = admin_items_by_variant[where authed = True and fixedDeposit = 10000 and db = exDB
      and rid = "''r1''" and patch = ?p and ?app1.0 = a1 and ?db1.0 = d1 and newItems = "[exEntry ''A'' 5]"
      and ?app2.0 = a2 and ?db2.0 = d2]
  from t h1 h2 p f i s1 s2 show ?thesis by auto
qed

text \<open>
  C3. \<^verbatim>\<open>updateItem\<close> of dataService.ts stores an item whose currentStock is negative:
  its only check is currentStock > initialStock. From a store within the bounds it yields
  one outside them. The direct handler of worker.ts for the same operation rejects the
  same item.
\<close>

theorem updateItem_negative_stock:
  "stockBounds exDB
   \<and> updateItem exDB (exItem ''A'' 10 (- 1) 3000)
       = (Inr (exItem ''A'' 10 (- 1) 3000),
          exDB\<lparr>db_items := [exItem ''A'' 10 (- 1) 3000, exItem ''B'' 4 4 500]\<rparr>)
   \<and> \<not> stockBounds (snd (updateItem exDB (exItem ''A'' 10 (- 1) 3000)))
   \<and> updateItem_direct True exDB ''A'' (exItem ''A'' 10 (- 1) 3000) = (Inl ValidationError, exDB)"
  by (simp add: stockBounds_def ex_defs eval_defs)

text \<open>
  C9. Two create requests for 6 of item A each, against currentStock = 10, where both
  handlers read the Items table before either runs its batch: both are answered with the
  new application, the stock ends at 4, and the ledger holds two PENDING applications of 6
  each. The guarded UPDATE of the second batch matches no row, which is no failure, and the
  handler does not look at the number of rows changed. Run one after the other, the second
  request is refused with InsufficientStock.
\<close>

theorem concurrent_creates_both_succeed:
  "(let r = interleavedCreates 10000 \<lparr>db_items = [exItem ''A'' 10 10 3000], db_rentals = []\<rparr>
              (exData [exEntry ''A'' 6]) ''r1'' (exData [exEntry ''A'' 6]) ''r2'' ''2024-05-01''
    in \<not> isl (fst r) \<and> \<not> isl (fst (snd r))
       \<and> map currentStock (db_items (snd (snd r))) = [4]
       \<and> map (\<lambda>a. (app_id a, status a, items a)) (db_rentals (snd (snd r)))
           = [(''r1'', PENDING, [exEntry ''A'' 6]), (''r2'', PENDING, [exEntry ''A'' 6])]
       \<and> reservedQty (db_rentals (snd (snd r))) ''A'' = 12)
   \<and> fst (apply_direct 10000
            (snd (apply_direct 10000 \<lparr>db_items = [exItem ''A'' 10 10 3000], db_rentals = []\<rparr>
                    (exData [exEntry ''A'' 6]) ''r1'' ''2024-05-01''))
            (exData [exEntry ''A'' 6]) ''r2'' ''2024-05-01'')
       = Inl (InsufficientStock ''A'' 6 4)"
  by (simp add: interleavedCreates_def reservedQty_def heldBy_def ex_defs eval_defs)

lemma findItem_Some: "findItem xs iid = Some it \<Longrightarrow> it \<in> set xs \<and> item_id it = iid"
  by (induction xs) (auto simp: findItem_def split: if_splits)

lemma findItem_None_iff: "findItem xs iid = None \<longleftrightarrow> iid \<notin> item_id ` set xs"
  by (induction xs) (auto simp: findItem_def)

lemma findItem_distinct:
  "distinct (map item_id xs) \<Longrightarrow> i \<in> set xs \<Longrightarrow> findItem xs (item_id i) = Some i"
  by (induction xs) (auto simp: findItem_def)


lemma findEntry_None_iff: "findEntry es iid = None \<longleftrightarrow> iid \<notin> itemId ` set es"
  by (induction es) (auto simp: findEntry_def)

lemma findApp_distinct:
  "distinct (map app_id rs) \<Longrightarrow> a \<in> set rs \<Longrightarrow> findApp rs (app_id a) = Some a"
  by (induction rs) (auto simp: findApp_def)

lemma stockMapOf_fold:
  "distinct (map item_id xs) \<Longrightarrow>
   foldl (\<lambda>m i. m(item_id i \<mapsto> currentStock i)) m xs iid =
     (case findItem xs iid of Some it \<Rightarrow> Some (currentStock it) | None \<Rightarrow> m iid)"
proof (induction xs arbitrary: m)
  case Nil
  then show ?case by (simp add: findItem_def)
next
  case (Cons x xs)
  then have d: "distinct (map item_id xs)" and nx: "item_id x \<notin> item_id ` set xs" by auto
  show ?case
  proof (cases "item_id x = iid")
    case True
    with nx have "findItem xs iid = None" by (simp add: findItem_None_iff)
    with Cons.IH[OF d] True show ?thesis by (simp add: findItem_def)
  next
    case False
    with Cons.IH[OF d] show ?thesis by (simp add: findItem_def)
  qed
qed

lemma stockGet_stockMapOf:
  "distinct (map item_id xs) \<Longrightarrow> i \<in> set xs \<Longrightarrow> stockGet (stockMapOf xs) (item_id i) = currentStock i"
  by (simp add: stockGet_def stockMapOf_def stockMapOf_fold findItem_distinct)












lemma batchDelta_append: "batchDelta (xs @ ys) iid = batchDelta xs iid + batchDelta ys iid"
  by (simp add: batchDelta_def)
























text \<open>The adjustments of \<^verbatim>\<open>updateRentalApplication\<close> carry the engine's stock change.\<close>

lemma adjustmentsFor_cases:
  "adjustmentsFor oR nR oq nq iid =
     (if computeStockChange oR nR oq nq = 0 then []
      else if computeStockChange oR nR oq nq > 0
        then [\<lparr>adj_itemId = iid, adj_quantity = computeStockChange oR nR oq nq, adj_operation = Increase\<rparr>]
        else [\<lparr>adj_itemId = iid, adj_quantity = - computeStockChange oR nR oq nq, adj_operation = Decrease\<rparr>])"
  by (auto simp: adjustmentsFor_def computeStockChange_def Let_def)

lemma collectAdjustments_Inr:
  "collectAdjustments old new allItems oR nR ids = Inr adjs \<Longrightarrow>
   adjs = concat (map (\<lambda>iid. adjustmentsFor oR nR (qtyOf old iid) (qtyOf new iid) iid) ids)
   \<and> (\<forall>iid\<in>set ids. findItem allItems iid \<noteq> None)"
  by (induction ids arbitrary: adjs) (auto split: option.splits sum.splits)

lemma concat_adjustments_ids:
  "distinct ids \<Longrightarrow>
   distinct (map adj_itemId (concat (map (\<lambda>iid. adjustmentsFor oR nR (oq iid) (nq iid) iid) ids)))
   \<and> set (map adj_itemId (concat (map (\<lambda>iid. adjustmentsFor oR nR (oq iid) (nq iid) iid) ids))) \<subseteq> set ids"
  by (induction ids) (auto simp: adjustmentsFor_cases)


lemma concat_adjustments_mem:
  "a \<in> set (concat (map (\<lambda>iid. adjustmentsFor oR nR (oq iid) (nq iid) iid) ids)) \<Longrightarrow>
   adj_itemId a \<in> set ids
   \<and> signedQty a = computeStockChange oR nR (oq (adj_itemId a)) (nq (adj_itemId a))
   \<and> adj_quantity a > 0"
  by (induction ids) (auto simp: adjustmentsFor_cases signedQty_def split: if_splits)







































lemma findItem_map_addStock:
  "findItem (map (\<lambda>i. addStock (f (item_id i)) i) xs) iid = map_option (addStock (f iid)) (findItem xs iid)"
  by (induction xs) (auto simp: findItem_def item_id_addStock)




lemma batchDelta_nonzero_mem:
  "batchDelta ops iid \<noteq> 0 \<Longrightarrow> \<exists>d. UpdateStockAdd d iid \<in> set ops"
proof (induction ops)
  case Nil
  then show ?case by (simp add: batchDelta_def)
next
  case (Cons s ops)
  show ?case
  proof (cases "deltaOf iid s = 0")
    case True
    with Cons.prems have "batchDelta ops iid \<noteq> 0" by (simp add: batchDelta_def)
    from Cons.IH[OF this] show ?thesis by auto
  next
    case False
    then obtain d where "s = UpdateStockAdd d iid" by (cases s) (auto split: if_splits)
    then show ?thesis by auto
  qed
qed

lemma finishUpdate_stock_writes:
  "finishUpdate dep allItems orig core newItems stockOps = (finalApp, ops) \<Longrightarrow>
   UpdateStockAdd d iid \<in> set ops \<longleftrightarrow> UpdateStockAdd d iid \<in> set stockOps"
  by (auto simp: finishUpdate_def Let_def)

lemma qtyOf_notin: "iid \<notin> itemId ` set es \<Longrightarrow> qtyOf es iid = 0"
  by (simp add: qtyOf_def findEntry_None_iff[THEN iffD2])

lemma computeStockChange_absent: "computeStockChange oR nR 0 0 = 0"
  by (simp add: computeStockChange_def)

text \<open>What a successful run of the engine writes for one item of the store, for any
  rule \<open>written\<close> that turns the computed change into the written one.\<close>

lemma engine_written:
  assumes fin: "finishUpdate dep (db_items db) orig core newItems so = (finalApp, ops)"
    and adds: "list_all isAddOp so"
    and bd: "\<And>iid. batchDelta so iid =
                 (if iid \<in> itemId ` set (items orig) \<union> itemId ` set newItems
                  then itemDelta written (items orig) newItems (db_items db) oR nR iid
                         (stockGet (stockMapOf (db_items db)) iid)
                  else 0)"
    and mem: "\<And>iid d. UpdateStockAdd d iid \<in> set so \<Longrightarrow>
                 d = itemDelta written (items orig) newItems (db_items db) oR nR iid
                         (stockGet (stockMapOf (db_items db)) iid) \<and> d \<noteq> 0"
    and zero: "written i (currentStock i) 0 = 0"
    and di: "distinct (map item_id (db_items db))" and i: "i \<in> set (db_items db)"
  shows "UpdateStockAdd d (item_id i) \<in> set ops \<longleftrightarrow>
           d \<noteq> 0 \<and> d = written i (currentStock i)
                 (computeStockChange oR nR (qtyOf (items orig) (item_id i)) (qtyOf newItems (item_id i)))"
    and "execBatch db ops = Some db' \<Longrightarrow>
           findItem (db_items db') (item_id i)
             = Some (i\<lparr>currentStock := currentStock i + written i (currentStock i)
                 (computeStockChange oR nR (qtyOf (items orig) (item_id i)) (qtyOf newItems (item_id i)))\<rparr>)"
proof -
  let ?iid = "item_id i"
  let ?sc = "computeStockChange oR nR (qtyOf (items orig) ?iid) (qtyOf newItems ?iid)"
  let ?W = "written i (currentStock i) ?sc"
  have idl: "itemDelta written (items orig) newItems (db_items db) oR nR ?iid
                 (stockGet (stockMapOf (db_items db)) ?iid) = ?W"
    using findItem_distinct[OF di i] stockGet_stockMapOf[OF di i] by (simp add: itemDelta_def)
  have w: "UpdateStockAdd d ?iid \<in> set ops \<longleftrightarrow> UpdateStockAdd d ?iid \<in> set so" for d
    by (rule finishUpdate_stock_writes[OF fin])
  have bdi: "batchDelta so ?iid = ?W"
  proof (cases "?iid \<in> itemId ` set (items orig) \<union> itemId ` set newItems")
    case True
    with bd[of ?iid] idl show ?thesis by simp
  next
    case False
    then have "qtyOf (items orig) ?iid = 0" "qtyOf newItems ?iid = 0" by (simp_all add: qtyOf_notin)
    with bd[of ?iid] False zero show ?thesis by (simp add: computeStockChange_absent)
  qed
  show "UpdateStockAdd d ?iid \<in> set ops \<longleftrightarrow> d \<noteq> 0 \<and> d = ?W"
  proof
    assume "UpdateStockAdd d ?iid \<in> set ops"
    with w have "UpdateStockAdd d ?iid \<in> set so" by simp
    from mem[OF this] idl show "d \<noteq> 0 \<and> d = ?W" by simp
  next
    assume d: "d \<noteq> 0 \<and> d = ?W"
    with bdi have "batchDelta so ?iid \<noteq> 0" by simp
    from batchDelta_nonzero_mem[OF this] obtain d' where d': "UpdateStockAdd d' ?iid \<in> set so" by blast
    from mem[OF d'] idl have "d' = ?W" by simp
    with d d' w show "UpdateStockAdd d ?iid \<in> set ops" by simp
  qed
  show "findItem (db_items db') ?iid = Some (i\<lparr>currentStock := currentStock i + ?W\<rparr>)"
    if ex: "execBatch db ops = Some db'"
  proof -
    from finishUpdate_effect(2)[OF fin adds ex]
    have "db_items db' = map (\<lambda>i. addStock (batchDelta so (item_id i)) i) (db_items db)" .
    then have "findItem (db_items db') ?iid
                 = map_option (addStock (batchDelta so ?iid)) (findItem (db_items db) ?iid)"
      by (simp only: findItem_map_addStock[of "batchDelta so"])
    with findItem_distinct[OF di i] bdi show ?thesis by (simp add: addStock_def)
  qed
qed

lemma engine_written_v3:
  assumes m: "manageRentalUpdate_v3 dep db orig core newItems = Inr (finalApp, ops)"
    and di: "distinct (map item_id (db_items db))" and i: "i \<in> set (db_items db)"
  shows "UpdateStockAdd d (item_id i) \<in> set ops \<longleftrightarrow>
           d \<noteq> 0 \<and> d = writtenChange_v3 i (currentStock i)
                 (computeStockChange (isReserved (status orig)) (isReserved (status core))
                    (qtyOf (items orig) (item_id i)) (qtyOf newItems (item_id i)))"
    and "execBatch db ops = Some db' \<Longrightarrow>
           findItem (db_items db') (item_id i)
             = Some (i\<lparr>currentStock := currentStock i + writtenChange_v3 i (currentStock i)
                 (computeStockChange (isReserved (status orig)) (isReserved (status core))
                    (qtyOf (items orig) (item_id i)) (qtyOf newItems (item_id i)))\<rparr>)"
proof -
  from manage_v3_Inr[OF m] obtain so where
    fin: "finishUpdate dep (db_items db) orig core newItems so = (finalApp, ops)"
    and adds: "list_all isAddOp so"
    and bd: "\<And>iid. batchDelta so iid =
                 (if iid \<in> itemId ` set (items orig) \<union> itemId ` set newItems
                  then itemDelta writtenChange_v3 (items orig) newItems (db_items db)
                         (isReserved (status orig)) (isReserved (status core)) iid
                         (stockGet (stockMapOf (db_items db)) iid)
                  else 0)"
    and mem: "\<And>iid d. UpdateStockAdd d iid \<in> set so \<Longrightarrow>
                 d = itemDelta writtenChange_v3 (items orig) newItems (db_items db)
                         (isReserved (status orig)) (isReserved (status core)) iid
                         (stockGet (stockMapOf (db_items db)) iid) \<and> d \<noteq> 0"
    by blast
  have z: "writtenChange_v3 i (currentStock i) 0 = 0" by (simp add: writtenChange_v3_def)
  note e = engine_written[of dep db orig core newItems so finalApp ops writtenChange_v3, OF fin adds bd mem z di i]
  show "UpdateStockAdd d (item_id i) \<in> set ops \<longleftrightarrow>
           d \<noteq> 0 \<and> d = writtenChange_v3 i (currentStock i)
                 (computeStockChange (isReserved (status orig)) (isReserved (status core))
                    (qtyOf (items orig) (item_id i)) (qtyOf newItems (item_id i)))"
    by (rule e(1))
  show "execBatch db ops = Some db' \<Longrightarrow>
           findItem (db_items db') (item_id i)
             = Some (i\<lparr>currentStock := currentStock i + writtenChange_v3 i (currentStock i)
                 (computeStockChange (isReserved (status orig)) (isReserved (status core))
                    (qtyOf (items orig) (item_id i)) (qtyOf newItems (item_id i)))\<rparr>)"
    by (rule e(2))
qed

lemma engine_written_v1:
  assumes m: "manageRentalUpdate_v1 dep db orig core newItems = Inr (finalApp, ops)"
    and di: "distinct (map item_id (db_items db))" and i: "i \<in> set (db_items db)"
    and ub: "currentStock i \<le> initialStock i"
  shows "UpdateStockAdd d (item_id i) \<in> set ops \<longleftrightarrow>
           d \<noteq> 0 \<and> d = writtenChange_v3 i (currentStock i)
                 (computeStockChange (isReserved (status orig)) (isReserved (status core))
                    (qtyOf (items orig) (item_id i)) (qtyOf newItems (item_id i)))"
    and "execBatch db ops = Some db' \<Longrightarrow>
           findItem (db_items db') (item_id i)
             = Some (i\<lparr>currentStock := currentStock i + writtenChange_v3 i (currentStock i)
                 (computeStockChange (isReserved (status orig)) (isReserved (status core))
                    (qtyOf (items orig) (item_id i)) (qtyOf newItems (item_id i)))\<rparr>)"
proof -
  from manage_v1_Inr[OF m] obtain so where
    fin: "finishUpdate dep (db_items db) orig core newItems so = (finalApp, ops)"
    and adds: "list_all isAddOp so"
    and bd: "\<And>iid. batchDelta so iid =
                 (if iid \<in> itemId ` set (items orig) \<union> itemId ` set newItems
                  then itemDelta writtenChange_v1 (items orig) newItems (db_items db)
                         (isReserved (status orig)) (isReserved (status core)) iid
                         (stockGet (stockMapOf (db_items db)) iid)
                  else 0)"
    and mem: "\<And>iid d. UpdateStockAdd d iid \<in> set so \<Longrightarrow>
                 d = itemDelta writtenChange_v1 (items orig) newItems (db_items db)
                         (isReserved (status orig)) (isReserved (status core)) iid
                         (stockGet (stockMapOf (db_items db)) iid) \<and> d \<noteq> 0"
    by blast
  have z: "writtenChange_v1 i (currentStock i) 0 = 0" by (simp add: writtenChange_v1_def)
  have eq: "writtenChange_v1 i (currentStock i) s = writtenChange_v3 i (currentStock i) s" for s
    using ub by (auto simp: writtenChange_v1_def writtenChange_v3_def)
  note e = engine_written[of dep db orig core newItems so finalApp ops writtenChange_v1, OF fin adds bd mem z di i]
  show "UpdateStockAdd d (item_id i) \<in> set ops \<longleftrightarrow>
           d \<noteq> 0 \<and> d = writtenChange_v3 i (currentStock i)
                 (computeStockChange (isReserved (status orig)) (isReserved (status core))
                    (qtyOf (items orig) (item_id i)) (qtyOf newItems (item_id i)))"
    using e(1)[of d] by (simp add: eq)
  show "execBatch db ops = Some db' \<Longrightarrow>
           findItem (db_items db') (item_id i)
             = Some (i\<lparr>currentStock := currentStock i + writtenChange_v3 i (currentStock i)
                 (computeStockChange (isReserved (status orig)) (isReserved (status core))
                    (qtyOf (items orig) (item_id i)) (qtyOf newItems (item_id i)))\<rparr>)"
    using e(2) by (simp add: eq)
qed

text \<open>When the loop of the engine ends in an error.\<close>

lemma reconcileLoop_isl:
  assumes frame: "\<And>j ops m ops' m'. body j (ops, m) = Inr (ops', m') \<Longrightarrow> \<forall>k. k \<noteq> j \<longrightarrow> m' k = m k"
    and bad: "\<And>j ops m. stockGet m j = stockGet m0 j \<Longrightarrow> isl (body j (ops, m)) \<longleftrightarrow> bad j"
  shows "distinct ids \<Longrightarrow> \<forall>k\<in>set ids. stockGet m k = stockGet m0 k \<Longrightarrow>
         isl (reconcileLoop body ids (ops, m)) \<longleftrightarrow> (\<exists>j\<in>set ids. bad j)"
proof (induction ids arbitrary: ops m)
  case Nil
  then show ?case by simp
next
  case (Cons j ids)
  from Cons.prems have dj: "j \<notin> set ids" and di: "distinct ids"
    and sj: "stockGet m j = stockGet m0 j" and sk: "\<forall>k\<in>set ids. stockGet m k = stockGet m0 k" by auto
  show ?case
  proof (cases "body j (ops, m)")
    case (Inl e)
    then have "isl (body j (ops, m))" by simp
    with bad[OF sj, of ops] have "bad j" by simp
    with Inl show ?thesis by simp
  next
    case (Inr st)
    obtain ops' m' where st: "st = (ops', m')" by (cases st)
    from Inr have "\<not> isl (body j (ops, m))" by simp
    with bad[OF sj, of ops] have nb: "\<not> bad j" by simp
    from frame[OF Inr[unfolded st]] have fr: "\<And>k. k \<noteq> j \<Longrightarrow> m' k = m k" by simp
    have "\<forall>k\<in>set ids. stockGet m' k = stockGet m0 k"
    proof
      fix k assume k: "k \<in> set ids"
      with dj have "k \<noteq> j" by auto
      with fr sk k show "stockGet m' k = stockGet m0 k" by (simp add: stockGet_def)
    qed
    from Cons.IH[OF di this, of ops'] Inr st nb show ?thesis by simp
  qed
qed

lemma applyStockChange_v3_isl:
  "isl (applyStockChange_v3 it oq sc j (ops, m)) \<longleftrightarrow> sc \<noteq> 0 \<and> stockGet m j + sc < 0"
  by (simp add: applyStockChange_v3_def Let_def)

lemma applyStockChange_v1_isl:
  "isl (applyStockChange_v1 it oq sc j (ops, m)) \<longleftrightarrow> sc \<noteq> 0 \<and> stockGet m j + sc < 0"
  by (simp add: applyStockChange_v1_def Let_def)

lemma reconcileItem_v3_frame:
  "reconcileItem_v3 old new allItems oR nR j (ops, m) = Inr (ops', m') \<Longrightarrow> \<forall>k. k \<noteq> j \<longrightarrow> m' k = m k"
  using reconcileItem_v3_Inr by blast

lemma reconcileItem_v1_frame:
  "reconcileItem_v1 old new allItems oR nR j (ops, m) = Inr (ops', m') \<Longrightarrow> \<forall>k. k \<noteq> j \<longrightarrow> m' k = m k"
  using reconcileItem_v1_Inr by blast

lemma manage_v3_isl:
  assumes di: "distinct (map item_id (db_items db))"
    and nn: "\<forall>it\<in>set (db_items db). 0 \<le> currentStock it"
  shows "isl (manageRentalUpdate_v3 dep db orig core newItems) \<longleftrightarrow>
           (\<exists>it\<in>set (db_items db).
              currentStock it + computeStockChange (isReserved (status orig)) (isReserved (status core))
                 (qtyOf (items orig) (item_id it)) (qtyOf newItems (item_id it)) < 0)"
proof -
  let ?oR = "isReserved (status orig)" and ?nR = "isReserved (status core)"
  let ?sc = "\<lambda>j. computeStockChange ?oR ?nR (qtyOf (items orig) j) (qtyOf newItems j)"
  let ?body = "reconcileItem_v3 (items orig) newItems (db_items db) ?oR ?nR"
  let ?m0 = "stockMapOf (db_items db)"
  let ?bad = "\<lambda>j. case findItem (db_items db) j of None \<Rightarrow> False
                   | Some it \<Rightarrow> ?sc j \<noteq> 0 \<and> currentStock it + ?sc j < 0"
  have b: "isl (?body j (ops, m)) \<longleftrightarrow> ?bad j" if s: "stockGet m j = stockGet ?m0 j" for j ops m
  proof (cases "findItem (db_items db) j")
    case None
    then show ?thesis by (simp add: reconcileItem_v3_def Let_def)
  next
    case (Some it)
    from findItem_Some[OF Some] have "it \<in> set (db_items db)" "item_id it = j" by auto
    with stockGet_stockMapOf[OF di, of it] s have "stockGet m j = currentStock it" by simp
    with Some show ?thesis by (simp add: reconcileItem_v3_def Let_def applyStockChange_v3_isl)
  qed
  have l: "isl (reconcileLoop ?body (allInvolvedItemIds (items orig) newItems) ([], ?m0))
           \<longleftrightarrow> (\<exists>j\<in>set (allInvolvedItemIds (items orig) newItems). ?bad j)"
    by (rule reconcileLoop_isl[of ?body ?m0 ?bad, OF reconcileItem_v3_frame b allInvolved_distinct]) simp_all
  have m: "isl (manageRentalUpdate_v3 dep db orig core newItems)
           \<longleftrightarrow> isl (reconcileLoop ?body (allInvolvedItemIds (items orig) newItems) ([], ?m0))"
    by (simp add: manageRentalUpdate_v3_def Let_def split: sum.splits)
  have "(\<exists>j\<in>set (allInvolvedItemIds (items orig) newItems). ?bad j)
        \<longleftrightarrow> (\<exists>it\<in>set (db_items db). currentStock it + ?sc (item_id it) < 0)"
  proof
    assume "\<exists>j\<in>set (allInvolvedItemIds (items orig) newItems). ?bad j"
    then obtain j it where "findItem (db_items db) j = Some it" "currentStock it + ?sc j < 0"
      by (auto split: option.splits)
    with findItem_Some[of "db_items db" j it] show "\<exists>it\<in>set (db_items db). currentStock it + ?sc (item_id it) < 0"
      by auto
  next
    assume "\<exists>it\<in>set (db_items db). currentStock it + ?sc (item_id it) < 0"
    then obtain it where it: "it \<in> set (db_items db)" and neg: "currentStock it + ?sc (item_id it) < 0" by auto
    from nn it have c0: "0 \<le> currentStock it" by auto
    with neg have nz: "?sc (item_id it) \<noteq> 0" by auto
    have inv: "item_id it \<in> set (allInvolvedItemIds (items orig) newItems)"
    proof (rule ccontr)
      assume "\<not> ?thesis"
      then have "qtyOf (items orig) (item_id it) = 0" "qtyOf newItems (item_id it) = 0"
        by (simp_all add: allInvolved_set qtyOf_notin)
      with nz show False by (simp add: computeStockChange_absent)
    qed
    from findItem_distinct[OF di it] nz neg have "?bad (item_id it)" by simp
    with inv show "\<exists>j\<in>set (allInvolvedItemIds (items orig) newItems). ?bad j" by blast
  qed
  with l m show ?thesis by simp
qed

lemma manage_v1_isl:
  assumes di: "distinct (map item_id (db_items db))"
    and nn: "\<forall>it\<in>set (db_items db). 0 \<le> currentStock it"
  shows "isl (manageRentalUpdate_v1 dep db orig core newItems) \<longleftrightarrow>
           (\<exists>j\<in>set (allInvolvedItemIds (items orig) newItems). findItem (db_items db) j = None)
           \<or> (\<exists>it\<in>set (db_items db).
              currentStock it + computeStockChange (isReserved (status orig)) (isReserved (status core))
                 (qtyOf (items orig) (item_id it)) (qtyOf newItems (item_id it)) < 0)"
proof -
  let ?oR = "isReserved (status orig)" and ?nR = "isReserved (status core)"
  let ?sc = "\<lambda>j. computeStockChange ?oR ?nR (qtyOf (items orig) j) (qtyOf newItems j)"
  let ?body = "reconcileItem_v1 (items orig) newItems (db_items db) ?oR ?nR"
  let ?m0 = "stockMapOf (db_items db)"
  let ?ids = "allInvolvedItemIds (items orig) newItems"
  let ?bad = "\<lambda>j. case findItem (db_items db) j of None \<Rightarrow> True
                   | Some it \<Rightarrow> ?sc j \<noteq> 0 \<and> currentStock it + ?sc j < 0"
  have b: "isl (?body j (ops, m)) \<longleftrightarrow> ?bad j" if s: "stockGet m j = stockGet ?m0 j" for j ops m
  proof (cases "findItem (db_items db) j")
    case None
    then show ?thesis by (simp add: reconcileItem_v1_def Let_def)
  next
    case (Some it)
    from findItem_Some[OF Some] have "it \<in> set (db_items db)" "item_id it = j" by auto
    with stockGet_stockMapOf[OF di, of it] s have "stockGet m j = currentStock it" by simp
    with Some show ?thesis by (simp add: reconcileItem_v1_def Let_def applyStockChange_v1_isl)
  qed
  have l: "isl (reconcileLoop ?body ?ids ([], ?m0)) \<longleftrightarrow> (\<exists>j\<in>set ?ids. ?bad j)"
    by (rule reconcileLoop_isl[of ?body ?m0 ?bad, OF reconcileItem_v1_frame b allInvolved_distinct]) simp_all
  have m: "isl (manageRentalUpdate_v1 dep db orig core newItems) \<longleftrightarrow> isl (reconcileLoop ?body ?ids ([], ?m0))"
    by (simp add: manageRentalUpdate_v1_def Let_def split: sum.splits)
  have "(\<exists>j\<in>set ?ids. ?bad j)
        \<longleftrightarrow> (\<exists>j\<in>set ?ids. findItem (db_items db) j = None)
            \<or> (\<exists>it\<in>set (db_items db). currentStock it + ?sc (item_id it) < 0)"
  proof
    assume "\<exists>j\<in>set ?ids. ?bad j"
    then obtain j where j: "j \<in> set ?ids" and bj: "?bad j" by blast
    show "(\<exists>j\<in>set ?ids. findItem (db_items db) j = None)
            \<or> (\<exists>it\<in>set (db_items db). currentStock it + ?sc (item_id it) < 0)"
    proof (cases "findItem (db_items db) j")
      case None
      with j show ?thesis by blast
    next
      case (Some it)
      with bj have "currentStock it + ?sc j < 0" by simp
      with findItem_Some[OF Some] show ?thesis by auto
    qed
  next
    assume h: "(\<exists>j\<in>set ?ids. findItem (db_items db) j = None)
            \<or> (\<exists>it\<in>set (db_items db). currentStock it + ?sc (item_id it) < 0)"
    show "\<exists>j\<in>set ?ids. ?bad j"
    proof (cases "\<exists>j\<in>set ?ids. findItem (db_items db) j = None")
      case True
      then obtain j where "j \<in> set ?ids" "findItem (db_items db) j = None" by blast
      then have "j \<in> set ?ids \<and> ?bad j" by simp
      then show ?thesis by blast
    next
      case False
      with h obtain it where it: "it \<in> set (db_items db)" and neg: "currentStock it + ?sc (item_id it) < 0" by auto
      from nn it have c0: "0 \<le> currentStock it" by auto
      with neg have nz: "?sc (item_id it) \<noteq> 0" by auto
      have inv: "item_id it \<in> set ?ids"
      proof (rule ccontr)
        assume "\<not> ?thesis"
        then have "qtyOf (items orig) (item_id it) = 0" "qtyOf newItems (item_id it) = 0"
          by (simp_all add: allInvolved_set qtyOf_notin)
        with nz show False by (simp add: computeStockChange_absent)
      qed
      from findItem_distinct[OF di it] nz neg have "?bad (item_id it)" by simp
      with inv show ?thesis by blast
    qed
  qed
  with l m show ?thesis by simp
qed

lemma stockBounds_iff:
  "stockBounds db \<longleftrightarrow> (\<forall>i\<in>set (db_items db). 0 \<le> currentStock i \<and> currentStock i \<le> initialStock i)"
  by (simp add: stockBounds_def list_all_iff checkItem_def)

text \<open>
  C5. In a store that meets the constraints of \<^verbatim>\<open>schema.sql\<close> (item ids are a primary
  key, \<^verbatim>\<open>CHECK (currentStock >= 0)\<close> and \<^verbatim>\<open>CHECK (currentStock <= initialStock)\<close>),
  let sc be the stock change \<^verbatim>\<open>manageRentalUpdate\<close> computes for an item of the store. When
  the engine returns, in either variant, its batch has a stock UPDATE for the item exactly
  when the written change is not 0, and the written change is initialStock - currentStock
  if sc > 0 and currentStock + sc > initialStock, and sc itself otherwise; after the batch
  the item's currentStock is initialStock in the first case and currentStock + sc in the
  second. The engine ends in an error exactly when some item's currentStock plus its
  change is negative (the first variant also when an involved item is not in the store),
  so the cap raises none. \<^verbatim>\<open>adjustStockForItem\<close> writes initialStock for an increase that is
  positive and would exceed it, currentStock + quantity for any other increase and
  currentStock - quantity for a decrease within the stock.
\<close>

theorem defensive_clamp:
  assumes "distinct (map item_id (db_items db))" and "stockBounds db" and "i \<in> set (db_items db)"
    and "sc = computeStockChange (isReserved (status orig)) (isReserved (status core))
                (qtyOf (items orig) (item_id i)) (qtyOf newItems (item_id i))"
  shows
   "(manageRentalUpdate_v3 fixedDeposit db orig core newItems = Inr (finalApp, ops) \<longrightarrow>
       (\<forall>d. UpdateStockAdd d (item_id i) \<in> set ops \<longleftrightarrow>
             d \<noteq> 0 \<and> d = (if sc > 0 \<and> currentStock i + sc > initialStock i
                           then initialStock i - currentStock i else sc))
       \<and> (\<forall>db'. execBatch db ops = Some db' \<longrightarrow>
             findItem (db_items db') (item_id i)
               = Some (i\<lparr>currentStock := (if sc > 0 \<and> currentStock i + sc > initialStock i
                                           then initialStock i else currentStock i + sc)\<rparr>)))
    \<and> (manageRentalUpdate_v1 fixedDeposit db orig core newItems = Inr (finalApp1, ops1) \<longrightarrow>
       (\<forall>d. UpdateStockAdd d (item_id i) \<in> set ops1 \<longleftrightarrow>
             d \<noteq> 0 \<and> d = (if sc > 0 \<and> currentStock i + sc > initialStock i
                           then initialStock i - currentStock i else sc))
       \<and> (\<forall>db'. execBatch db ops1 = Some db' \<longrightarrow>
             findItem (db_items db') (item_id i)
               = Some (i\<lparr>currentStock := (if sc > 0 \<and> currentStock i + sc > initialStock i
                                           then initialStock i else currentStock i + sc)\<rparr>)))
    \<and> (isl (manageRentalUpdate_v3 fixedDeposit db orig core newItems) \<longleftrightarrow>
         (\<exists>it\<in>set (db_items db).
            currentStock it + computeStockChange (isReserved (status orig)) (isReserved (status core))
               (qtyOf (items orig) (item_id it)) (qtyOf newItems (item_id it)) < 0))
    \<and> (isl (manageRentalUpdate_v1 fixedDeposit db orig core newItems) \<longleftrightarrow>
         (\<exists>j\<in>set (allInvolvedItemIds (items orig) newItems). findItem (db_items db) j = None)
         \<or> (\<exists>it\<in>set (db_items db).
            currentStock it + computeStockChange (isReserved (status orig)) (isReserved (status core))
               (qtyOf (items orig) (item_id it)) (qtyOf newItems (item_id it)) < 0))
    \<and> adjustStockForItem db (item_id i) qty Increase
         = Inr (db\<lparr>db_items := map (\<lambda>x. if item_id x = item_id i
                      then i\<lparr>currentStock := (if qty > 0 \<and> currentStock i + qty > initialStock i
                                               then initialStock i else currentStock i + qty)\<rparr>
                      else x) (db_items db)\<rparr>)
    \<and> (qty \<le> currentStock i \<longrightarrow>
         adjustStockForItem db (item_id i) qty Decrease
           = Inr (db\<lparr>db_items := map (\<lambda>x. if item_id x = item_id i
                        then i\<lparr>currentStock := currentStock i - qty\<rparr> else x) (db_items db)\<rparr>))"
proof -
  note di = assms(1) and i = assms(3) and sc = assms(4)
  from assms(2) i have lb: "0 \<le> currentStock i" and ub: "currentStock i \<le> initialStock i"
    by (auto simp: stockBounds_iff)
  from assms(2) have nn: "\<forall>it\<in>set (db_items db). 0 \<le> currentStock it" by (simp add: stockBounds_iff)
  have w: "writtenChange_v3 i (currentStock i) sc
             = (if sc > 0 \<and> currentStock i + sc > initialStock i then initialStock i - currentStock i else sc)"
    by (simp add: writtenChange_v3_def)
  have s: "currentStock i + writtenChange_v3 i (currentStock i) sc
             = (if sc > 0 \<and> currentStock i + sc > initialStock i then initialStock i else currentStock i + sc)"
    by (simp add: writtenChange_v3_def)
  have c3: "(\<forall>d. UpdateStockAdd d (item_id i) \<in> set ops \<longleftrightarrow>
             d \<noteq> 0 \<and> d = (if sc > 0 \<and> currentStock i + sc > initialStock i
                           then initialStock i - currentStock i else sc))
       \<and> (\<forall>db'. execBatch db ops = Some db' \<longrightarrow>
             findItem (db_items db') (item_id i)
               = Some (i\<lparr>currentStock := (if sc > 0 \<and> currentStock i + sc > initialStock i
                                           then initialStock i else currentStock i + sc)\<rparr>))"
    if m: "manageRentalUpdate_v3 fixedDeposit db orig core newItems = Inr (finalApp, ops)"
  proof (intro conjI allI impI)
    fix d
    show "UpdateStockAdd d (item_id i) \<in> set ops \<longleftrightarrow>
             d \<noteq> 0 \<and> d = (if sc > 0 \<and> currentStock i + sc > initialStock i
                           then initialStock i - currentStock i else sc)"
      using engine_written_v3(1)[OF m di i, of d] unfolding sc[symmetric] w .
  next
    fix db' assume ex: "execBatch db ops = Some db'"
    show "findItem (db_items db') (item_id i)
               = Some (i\<lparr>currentStock := (if sc > 0 \<and> currentStock i + sc > initialStock i
                                           then initialStock i else currentStock i + sc)\<rparr>)"
      using engine_written_v3(2)[OF m di i ex] unfolding sc[symmetric] s .
  qed
  have c1: "(\<forall>d. UpdateStockAdd d (item_id i) \<in> set ops1 \<longleftrightarrow>
             d \<noteq> 0 \<and> d = (if sc > 0 \<and> currentStock i + sc > initialStock i
                           then initialStock i - currentStock i else sc))
       \<and> (\<forall>db'. execBatch db ops1 = Some db' \<longrightarrow>
             findItem (db_items db') (item_id i)
               = Some (i\<lparr>currentStock := (if sc > 0 \<and> currentStock i + sc > initialStock i
                                           then initialStock i else currentStock i + sc)\<rparr>))"
    if m: "manageRentalUpdate_v1 fixedDeposit db orig core newItems = Inr (finalApp1, ops1)"
  proof (intro conjI allI impI)
    fix d
    show "UpdateStockAdd d (item_id i) \<in> set ops1 \<longleftrightarrow>
             d \<noteq> 0 \<and> d = (if sc > 0 \<and> currentStock i + sc > initialStock i
                           then initialStock i - currentStock i else sc)"
      using engine_written_v1(1)[OF m di i ub, of d] unfolding sc[symmetric] w .
  next
    fix db' assume ex: "execBatch db ops1 = Some db'"
    show "findItem (db_items db') (item_id i)
               = Some (i\<lparr>currentStock := (if sc > 0 \<and> currentStock i + sc > initialStock i
                                           then initialStock i else currentStock i + sc)\<rparr>)"
      using engine_written_v1(2)[OF m di i ub ex] unfolding sc[symmetric] s .
  qed
  have f: "findItem (db_items db) (item_id i) = Some i" by (rule findItem_distinct[OF di i])
  have inc: "adjustStockForItem db (item_id i) qty Increase
         = Inr (db\<lparr>db_items := map (\<lambda>x. if item_id x = item_id i
                      then i\<lparr>currentStock := (if qty > 0 \<and> currentStock i + qty > initialStock i
                                               then initialStock i else currentStock i + qty)\<rparr>
                      else x) (db_items db)\<rparr>)"
  proof -
    have cond: "(qty > 0 \<and> currentStock i + qty > initialStock i) = (currentStock i + qty > initialStock i)"
      using ub by auto
    show ?thesis unfolding cond using f by (simp add: adjustStockForItem_def setStock_def Let_def)
  qed
  have dec: "adjustStockForItem db (item_id i) qty Decrease
           = Inr (db\<lparr>db_items := map (\<lambda>x. if item_id x = item_id i
                        then i\<lparr>currentStock := currentStock i - qty\<rparr> else x) (db_items db)\<rparr>)"
    if "qty \<le> currentStock i"
    using f that by (simp add: adjustStockForItem_def setStock_def)
  note p1 = impI[OF c3] and p2 = impI[OF c1]
    and p3 = manage_v3_isl[OF di nn, of fixedDeposit orig core newItems]
    and p4 = manage_v1_isl[OF di nn, of fixedDeposit orig core newItems]
    and p6 = impI[OF dec]
  show ?thesis
    by (rule conjI[OF p1 conjI[OF p2 conjI[OF p3 conjI[OF p4 conjI[OF inc p6]]]]])
qed

theorem defensive_clamp_witness:
  "\<exists>finalApp ops db' finalApp1 ops1 db1.
     manageRentalUpdate_v3 10000 exDB9 (exApp ''r1'' PENDING [exEntry ''A'' 5] 15000)
        (exApp ''r1'' PENDING [exEntry ''A'' 5] 15000) [exEntry ''A'' 3] = Inr (finalApp, ops)
     \<and> (\<forall>d. UpdateStockAdd d ''A'' \<in> set ops \<longleftrightarrow> d = 1)
     \<and> execBatch exDB9 ops = Some db'
     \<and> findItem (db_items db') ''A'' = Some (exItem ''A'' 10 10 3000)
     \<and> manageRentalUpdate_v1 10000 exDB9 (exApp ''r1'' PENDING [exEntry ''A'' 5] 15000)
        (exApp ''r1'' PENDING [exEntry ''A'' 5] 15000) [exEntry ''A'' 3] = Inr (finalApp1, ops1)
     \<and> (\<forall>d. UpdateStockAdd d ''A'' \<in> set ops1 \<longleftrightarrow> d = 1)
     \<and> execBatch exDB9 ops1 = Some db1
     \<and> findItem (db_items db1) ''A'' = Some (exItem ''A'' 10 10 3000)
     \<and> adjustStockForItem exDB9 ''A'' 5 Increase = Inr (exDB9\<lparr>db_items := [exItem ''A'' 10 10 3000]\<rparr>)
     \<and> adjustStockForItem exDB9 ''A'' 5 Decrease = Inr (exDB9\<lparr>db_items := [exItem ''A'' 10 4 3000]\<rparr>)"
proof -
  let ?orig = "exApp ''r1'' PENDING [exEntry ''A'' 5] 15000"
  let ?i = "exItem ''A'' 10 9 3000"
  obtain fa ops d' where m: "manageRentalUpdate_v3 10000 exDB9 ?orig ?orig [exEntry ''A'' 3] = Inr (fa, ops)"
    and ex: "execBatch exDB9 ops = Some d'"
    by (simp add: exDB9_def ex_defs eval_defs)
  obtain fa1 ops1 d1 where m1: "manageRentalUpdate_v1 10000 exDB9 ?orig ?orig [exEntry ''A'' 3] = Inr (fa1, ops1)"
    and ex1: "execBatch exDB9 ops1 = Some d1"
    by (simp add: exDB9_def ex_defs eval_defs)
  have h: "distinct (map item_id (db_items exDB9))" "stockBounds exDB9" "?i \<in> set (db_items exDB9)"
    "(2::int) = computeStockChange (isReserved (status ?orig)) (isReserved (status ?orig))
                (qtyOf (items ?orig) (item_id ?i)) (qtyOf [exEntry ''A'' 3] (item_id ?i))"
    by (simp_all add: stockBounds_def exDB9_def ex_defs eval_defs)
  have q: "item_id ?i = ''A''" "currentStock ?i = 9" "initialStock ?i = 10"
    "?i\<lparr>currentStock := 10\<rparr> = exItem ''A'' 10 10 3000"
    "?i\<lparr>currentStock := 4\<rparr> = exItem ''A'' 10 4 3000"
    "db_items exDB9 = [?i]"
    by (simp_all add: exDB9_def ex_defs)
  note t = defensive_clamp[OF h, where fixedDeposit = 10000 and finalApp = fa and ops = ops
      and ?finalApp1.0 = fa1 and ?ops1.0 = ops1 and qty = 5]
  from t[THEN conjunct1, rule_format, OF m, THEN conjunct1] q(1,2,3)
  have w0: "\<forall>d. UpdateStockAdd d ''A'' \<in> set ops \<longleftrightarrow> d \<noteq> 0 \<and> d = 1" by simp
  have w: "\<forall>d. UpdateStockAdd d ''A'' \<in> set ops \<longleftrightarrow> d = 1"
  proof
    fix d :: int
    have "(d \<noteq> 0 \<and> d = 1) = (d = 1)" by auto
    with w0 show "UpdateStockAdd d ''A'' \<in> set ops \<longleftrightarrow> d = 1" by simp
  qed
  from t[THEN conjunct1, rule_format, OF m, THEN conjunct2, rule_format, OF ex] q(1,2,3,4)
  have f: "findItem (db_items d') ''A'' = Some (exItem ''A'' 10 10 3000)" by simp
  from t[THEN conjunct2, THEN conjunct1, rule_format, OF m1, THEN conjunct1] q(1,2,3)
  have v0: "\<forall>d. UpdateStockAdd d ''A'' \<in> set ops1 \<longleftrightarrow> d \<noteq> 0 \<and> d = 1" by simp
  have v: "\<forall>d. UpdateStockAdd d ''A'' \<in> set ops1 \<longleftrightarrow> d = 1"
  proof
    fix d :: int
    have "(d \<noteq> 0 \<and> d = 1) = (d = 1)" by auto
    with v0 show "UpdateStockAdd d ''A'' \<in> set ops1 \<longleftrightarrow> d = 1" by simp
  qed
  from t[THEN conjunct2, THEN conjunct1, rule_format, OF m1, THEN conjunct2, rule_format, OF ex1] q(1,2,3,4)
  have f1: "findItem (db_items d1) ''A'' = Some (exItem ''A'' 10 10 3000)" by simp
  from t[THEN conjunct2, THEN conjunct2, THEN conjunct2, THEN conjunct2, THEN conjunct1] q
  have a1: "adjustStockForItem exDB9 ''A'' 5 Increase = Inr (exDB9\<lparr>db_items := [exItem ''A'' 10 10 3000]\<rparr>)"
    by simp
  from t[THEN conjunct2, THEN conjunct2, THEN conjunct2, THEN conjunct2, THEN conjunct2] q
  have a2: "adjustStockForItem exDB9 ''A'' 5 Decrease = Inr (exDB9\<lparr>db_items := [exItem ''A'' 10 4 3000]\<rparr>)"
    by simp
  note k = m w ex f m1 v ex1 f1 a1 a2
  show ?thesis by (intro exI conjI) (rule k)+
qed

lemma findItem_map_const:
  "item_id y = iid \<Longrightarrow>
   findItem (map (\<lambda>x. if item_id x = iid then y else x) xs) k
     = (if k = iid then map_option (\<lambda>_. y) (findItem xs iid) else findItem xs k)"
  by (induction xs) (auto simp: findItem_def)

text \<open>What one call of \<^verbatim>\<open>adjustStockForItem\<close> that returns leaves for an item id.\<close>

lemma adjustStockForItem_item:
  assumes a: "adjustStockForItem db iid q opn = Inr db1" and f: "findItem (db_items db) k = Some j"
  shows "findItem (db_items db1) k
           = Some (if k = iid
                   then j\<lparr>currentStock := (case opn of Decrease \<Rightarrow> currentStock j - q
                            | Increase \<Rightarrow> if currentStock j + q > initialStock j then initialStock j
                                          else currentStock j + q)\<rparr>
                   else j)"
proof -
  from a obtain item where fi: "findItem (db_items db) iid = Some item"
    by (auto simp: adjustStockForItem_def split: option.splits)
  from findItem_Some[OF fi] have id: "item_id item = iid" by simp
  obtain v where d1: "db1 = setStock db iid item v"
    and v: "v = (case opn of Decrease \<Rightarrow> currentStock item - q
                 | Increase \<Rightarrow> if currentStock item + q > initialStock item then initialStock item
                               else currentStock item + q)"
    using a fi by (cases opn) (auto simp: adjustStockForItem_def Let_def split: if_splits)
  have "findItem (db_items db1) k
          = (if k = iid then map_option (\<lambda>_. item\<lparr>currentStock := v\<rparr>) (findItem (db_items db) iid)
             else findItem (db_items db) k)"
    unfolding d1 setStock_def using findItem_map_const[of "item\<lparr>currentStock := v\<rparr>" iid "db_items db" k] id
    by simp
  with f fi v show ?thesis by auto
qed

text \<open>The stock an item has after a list of adjustments with distinct item ids.\<close>

lemma applyAdjustments_item:
  assumes "applyAdjustments db adjs = (Inr u, db')" and "distinct (map adj_itemId adjs)"
    and "findItem (db_items db) k = Some j"
  shows "findItem (db_items db') k
           = Some (case find (\<lambda>a. adj_itemId a = k) adjs of
                     None \<Rightarrow> j
                   | Some a \<Rightarrow> j\<lparr>currentStock := (case adj_operation a of
                         Decrease \<Rightarrow> currentStock j - adj_quantity a
                       | Increase \<Rightarrow> if currentStock j + adj_quantity a > initialStock j then initialStock j
                                     else currentStock j + adj_quantity a)\<rparr>)"
  using assms
proof (induction adjs arbitrary: db j)
  case Nil
  then show ?case by simp
next
  case (Cons a adjs)
  from Cons.prems(1) obtain db1 where
    s: "adjustStockForItem db (adj_itemId a) (adj_quantity a) (adj_operation a) = Inr db1"
    and r: "applyAdjustments db1 adjs = (Inr u, db')"
    by (auto split: sum.splits)
  from Cons.prems(2) have da: "distinct (map adj_itemId adjs)"
    and ne: "\<forall>x\<in>set adjs. adj_itemId x \<noteq> adj_itemId a" by (auto simp: image_iff)
  note one = adjustStockForItem_item[OF s Cons.prems(3)]
  show ?case
  proof (cases "k = adj_itemId a")
    case True
    let ?j1 = "j\<lparr>currentStock := (case adj_operation a of Decrease \<Rightarrow> currentStock j - adj_quantity a
                  | Increase \<Rightarrow> if currentStock j + adj_quantity a > initialStock j then initialStock j
                                else currentStock j + adj_quantity a)\<rparr>"
    from one True have f1: "findItem (db_items db1) k = Some ?j1" by simp
    from ne True have "find (\<lambda>x. adj_itemId x = k) adjs = None" by (auto simp: find_None_iff)
    with Cons.IH[OF r da f1] True show ?thesis by simp
  next
    case False
    with one have f1: "findItem (db_items db1) k = Some j" by simp
    from Cons.IH[OF r da f1] False show ?thesis by auto
  qed
qed

lemma find_adjustmentsFor:
  "find (\<lambda>a. adj_itemId a = k) (adjustmentsFor oR nR oq nq iid)
     = (if k = iid then
          (if computeStockChange oR nR oq nq = 0 then None
           else if computeStockChange oR nR oq nq > 0
             then Some \<lparr>adj_itemId = iid, adj_quantity = computeStockChange oR nR oq nq, adj_operation = Increase\<rparr>
             else Some \<lparr>adj_itemId = iid, adj_quantity = - computeStockChange oR nR oq nq, adj_operation = Decrease\<rparr>)
        else None)"
  by (simp add: adjustmentsFor_cases)

lemma find_append: "find P (xs @ ys) = (case find P xs of Some x \<Rightarrow> Some x | None \<Rightarrow> find P ys)"
  by (induction xs) auto

lemma find_concat_adjustments:
  "distinct ids \<Longrightarrow>
   find (\<lambda>a. adj_itemId a = k) (concat (map (\<lambda>iid. adjustmentsFor oR nR (oq iid) (nq iid) iid) ids))
     = (if k \<in> set ids then find (\<lambda>a. adj_itemId a = k) (adjustmentsFor oR nR (oq k) (nq k) k) else None)"
proof (induction ids)
  case Nil
  then show ?case by simp
next
  case (Cons i ids)
  then have d: "distinct ids" and ni: "i \<notin> set ids" by auto
  show ?case
  proof (cases "k = i")
    case True
    with ni have "k \<notin> set ids" by simp
    with Cons.IH[OF d] True show ?thesis
      by (simp add: find_append split: option.splits)
  next
    case False
    then have "find (\<lambda>a. adj_itemId a = k) (adjustmentsFor oR nR (oq i) (nq i) i) = None"
      by (simp add: find_adjustmentsFor)
    with Cons.IH[OF d] False show ?thesis by (simp add: find_append)
  qed
qed

text \<open>The stock of an item after an update of dataService.ts that succeeded.\<close>

lemma updateRentalApplication_item:
  assumes u: "updateRentalApplication dep db upd = (Inr app, db')"
    and f: "findApp (db_rentals db) (app_id upd) = Some orig"
    and fi: "findItem (db_items db) k = Some j"
  shows "findItem (db_items db') k
           = Some (j\<lparr>currentStock := currentStock j + writtenChange_v3 j (currentStock j)
                      (computeStockChange (isReserved (status orig)) (isReserved (status upd))
                         (qtyOf (items orig) k) (qtyOf (items upd) k))\<rparr>)"
proof -
  let ?oR = "isReserved (status orig)" and ?nR = "isReserved (status upd)"
  let ?ids = "allInvolvedItemIds (items orig) (items upd)"
  let ?sc = "computeStockChange ?oR ?nR (qtyOf (items orig) k) (qtyOf (items upd) k)"
  from updateRentalApplication_Inr[OF u] f obtain adjs where
    c: "collectAdjustments (items orig) (items upd) (db_items db) ?oR ?nR ?ids = Inr adjs"
    and ap: "applyAdjustments db adjs = (Inr (), db'\<lparr>db_rentals := db_rentals db\<rparr>)"
    by auto
  from collectAdjustments_Inr[OF c]
  have adjs: "adjs = concat (map (\<lambda>iid. adjustmentsFor ?oR ?nR (qtyOf (items orig) iid) (qtyOf (items upd) iid) iid) ?ids)"
    by simp
  have da: "distinct (map adj_itemId adjs)"
    unfolding adjs using concat_adjustments_ids[OF allInvolved_distinct] by blast
  have fd: "find (\<lambda>a. adj_itemId a = k) adjs
              = (if ?sc = 0 then None
                 else if ?sc > 0 then Some \<lparr>adj_itemId = k, adj_quantity = ?sc, adj_operation = Increase\<rparr>
                 else Some \<lparr>adj_itemId = k, adj_quantity = - ?sc, adj_operation = Decrease\<rparr>)"
  proof (cases "k \<in> set ?ids")
    case True
    then show ?thesis
      unfolding adjs find_concat_adjustments[OF allInvolved_distinct] by (simp add: find_adjustmentsFor)
  next
    case False
    then have "qtyOf (items orig) k = 0" "qtyOf (items upd) k = 0"
      by (simp_all add: allInvolved_set qtyOf_def findEntry_None_iff[THEN iffD2])
    then have "?sc = 0" by (simp add: computeStockChange_def)
    with False show ?thesis
      unfolding adjs find_concat_adjustments[OF allInvolved_distinct] by simp
  qed
  from applyAdjustments_item[OF ap da fi]
  have "findItem (db_items db') k
           = Some (case find (\<lambda>a. adj_itemId a = k) adjs of
                     None \<Rightarrow> j
                   | Some a \<Rightarrow> j\<lparr>currentStock := (case adj_operation a of
                         Decrease \<Rightarrow> currentStock j - adj_quantity a
                       | Increase \<Rightarrow> if currentStock j + adj_quantity a > initialStock j then initialStock j
                                     else currentStock j + adj_quantity a)\<rparr>)"
    by simp
  then show ?thesis
    unfolding fd by (auto simp: writtenChange_v3_def)
qed

lemma engine_reserved_delta:
  assumes m: "manageRentalUpdate_v3 dep db orig core newItems = Inr (finalApp, ops)"
    and oR: "isReserved (status orig)" and nR: "isReserved (status core)"
    and di: "distinct (map item_id (db_items db))" and i: "i \<in> set (db_items db)"
  shows "qtyOf (items orig) (item_id i) = qtyOf newItems (item_id i) \<longrightarrow>
           (\<forall>d. UpdateStockAdd d (item_id i) \<notin> set ops)"
    and "currentStock i + (qtyOf (items orig) (item_id i) - qtyOf newItems (item_id i)) \<le> initialStock i \<longrightarrow>
           (\<forall>d. UpdateStockAdd d (item_id i) \<in> set ops \<longleftrightarrow>
                 d = qtyOf (items orig) (item_id i) - qtyOf newItems (item_id i) \<and> d \<noteq> 0)"
    and "\<forall>db'. execBatch db ops = Some db'
             \<and> currentStock i + (qtyOf (items orig) (item_id i) - qtyOf newItems (item_id i)) \<le> initialStock i \<longrightarrow>
           findItem (db_items db') (item_id i)
             = Some (i\<lparr>currentStock := currentStock i
                          + (qtyOf (items orig) (item_id i) - qtyOf newItems (item_id i))\<rparr>)"
    and "qtyOf (items orig) (item_id i) - qtyOf newItems (item_id i) > 0
         \<and> currentStock i + (qtyOf (items orig) (item_id i) - qtyOf newItems (item_id i)) > initialStock i \<longrightarrow>
           (\<forall>d. UpdateStockAdd d (item_id i) \<in> set ops \<longleftrightarrow> d = initialStock i - currentStock i \<and> d \<noteq> 0)"
    and "\<forall>db'. execBatch db ops = Some db'
             \<and> qtyOf (items orig) (item_id i) - qtyOf newItems (item_id i) > 0
             \<and> currentStock i + (qtyOf (items orig) (item_id i) - qtyOf newItems (item_id i)) > initialStock i \<longrightarrow>
           findItem (db_items db') (item_id i) = Some (i\<lparr>currentStock := initialStock i\<rparr>)"
proof -
  let ?iid = "item_id i"
  let ?D = "qtyOf (items orig) ?iid - qtyOf newItems ?iid"
  have sc: "computeStockChange (isReserved (status orig)) (isReserved (status core))
              (qtyOf (items orig) ?iid) (qtyOf newItems ?iid) = ?D"
    using oR nR by (simp add: computeStockChange_def)
  have w: "UpdateStockAdd d ?iid \<in> set ops \<longleftrightarrow> d \<noteq> 0 \<and> d = writtenChange_v3 i (currentStock i) ?D" for d
    using engine_written_v3(1)[OF m di i, of d] unfolding sc .
  have s: "findItem (db_items db') ?iid
             = Some (i\<lparr>currentStock := currentStock i + writtenChange_v3 i (currentStock i) ?D\<rparr>)"
    if "execBatch db ops = Some db'" for db'
    using engine_written_v3(2)[OF m di i that] unfolding sc .
  show "qtyOf (items orig) ?iid = qtyOf newItems ?iid \<longrightarrow> (\<forall>d. UpdateStockAdd d ?iid \<notin> set ops)"
  proof (intro impI allI)
    fix d assume "qtyOf (items orig) ?iid = qtyOf newItems ?iid"
    then have "writtenChange_v3 i (currentStock i) ?D = 0" by (simp add: writtenChange_v3_def)
    with w[of d] show "UpdateStockAdd d ?iid \<notin> set ops" by simp
  qed
  show "currentStock i + ?D \<le> initialStock i \<longrightarrow>
           (\<forall>d. UpdateStockAdd d ?iid \<in> set ops \<longleftrightarrow> d = ?D \<and> d \<noteq> 0)"
  proof (intro impI allI)
    fix d assume "currentStock i + ?D \<le> initialStock i"
    then have "writtenChange_v3 i (currentStock i) ?D = ?D" by (simp add: writtenChange_v3_def)
    with w[of d] show "UpdateStockAdd d ?iid \<in> set ops \<longleftrightarrow> d = ?D \<and> d \<noteq> 0" by auto
  qed
  show "\<forall>db'. execBatch db ops = Some db' \<and> currentStock i + ?D \<le> initialStock i \<longrightarrow>
           findItem (db_items db') ?iid = Some (i\<lparr>currentStock := currentStock i + ?D\<rparr>)"
  proof (intro impI allI)
    fix db' assume h: "execBatch db ops = Some db' \<and> currentStock i + ?D \<le> initialStock i"
    then have "writtenChange_v3 i (currentStock i) ?D = ?D" by (simp add: writtenChange_v3_def)
    with s[OF h[THEN conjunct1]] show "findItem (db_items db') ?iid = Some (i\<lparr>currentStock := currentStock i + ?D\<rparr>)"
      by simp
  qed
  show "?D > 0 \<and> currentStock i + ?D > initialStock i \<longrightarrow>
           (\<forall>d. UpdateStockAdd d ?iid \<in> set ops \<longleftrightarrow> d = initialStock i - currentStock i \<and> d \<noteq> 0)"
  proof (intro impI allI)
    fix d assume "?D > 0 \<and> currentStock i + ?D > initialStock i"
    then have "writtenChange_v3 i (currentStock i) ?D = initialStock i - currentStock i"
      by (simp add: writtenChange_v3_def)
    with w[of d] show "UpdateStockAdd d ?iid \<in> set ops \<longleftrightarrow> d = initialStock i - currentStock i \<and> d \<noteq> 0"
      by auto
  qed
  show "\<forall>db'. execBatch db ops = Some db' \<and> ?D > 0 \<and> currentStock i + ?D > initialStock i \<longrightarrow>
           findItem (db_items db') ?iid = Some (i\<lparr>currentStock := initialStock i\<rparr>)"
  proof (intro impI allI)
    fix db' assume h: "execBatch db ops = Some db' \<and> ?D > 0 \<and> currentStock i + ?D > initialStock i"
    then have "writtenChange_v3 i (currentStock i) ?D = initialStock i - currentStock i"
      by (simp add: writtenChange_v3_def)
    with s[OF h[THEN conjunct1]] show "findItem (db_items db') ?iid = Some (i\<lparr>currentStock := initialStock i\<rparr>)"
      by simp
  qed
qed

lemma userUpdate_direct_stock:
  assumes a: "userUpdate_direct dep db rid body = (Inr app, db')"
    and f: "findApp (db_rentals db) rid = Some orig" and p: "p_items body = Some newItems"
    and di: "distinct (map item_id (db_items db))" and i: "i \<in> set (db_items db)"
  shows "findItem (db_items db') (item_id i)
           = Some (i\<lparr>currentStock := currentStock i + writtenChange_v3 i (currentStock i)
                       (qtyOf (items orig) (item_id i) - qtyOf newItems (item_id i))\<rparr>)"
proof -
  from a have a': "userUpdate manageRentalUpdate_v3 dep db rid body = (Inr app, db')"
    by (simp add: userUpdate_direct_def)
  from userUpdate_Inr[OF a'] f p obtain rd rt ops where
    st: "status orig = PENDING"
    and m: "manageRentalUpdate_v3 dep db orig (orig\<lparr>rentalDate := rd, returnDate := rt\<rparr>) newItems = Inr (app, ops)"
    and ex: "execBatch db ops = Some db'" by auto
  have sc: "computeStockChange (isReserved (status orig)) (isReserved (status (orig\<lparr>rentalDate := rd, returnDate := rt\<rparr>)))
              (qtyOf (items orig) (item_id i)) (qtyOf newItems (item_id i))
            = qtyOf (items orig) (item_id i) - qtyOf newItems (item_id i)"
    using st by (simp add: computeStockChange_def isReserved_def)
  show ?thesis using engine_written_v3(2)[OF m di i ex] unfolding sc .
qed

lemma service_reserved_delta:
  assumes f: "findApp (db_rentals db) (app_id upd) = Some orig"
    and oR: "isReserved (status orig)" and nR: "isReserved (status upd)"
    and u: "updateRentalApplication dep db upd = (Inr app, db')"
  shows "findItem (db_items db) k = Some j \<Longrightarrow>
           findItem (db_items db') k
             = Some (j\<lparr>currentStock := currentStock j + writtenChange_v3 j (currentStock j)
                         (qtyOf (items orig) k - qtyOf (items upd) k)\<rparr>)"
    and "\<exists>adjs. collectAdjustments (items orig) (items upd) (db_items db) True True
                   (allInvolvedItemIds (items orig) (items upd)) = Inr adjs
           \<and> (\<forall>a\<in>set adjs. qtyOf (items orig) (adj_itemId a) \<noteq> qtyOf (items upd) (adj_itemId a))"
proof -
  have sc: "computeStockChange (isReserved (status orig)) (isReserved (status upd)) a b = a - b" for a b
    using oR nR by (simp add: computeStockChange_def)
  show "findItem (db_items db') k
             = Some (j\<lparr>currentStock := currentStock j + writtenChange_v3 j (currentStock j)
                         (qtyOf (items orig) k - qtyOf (items upd) k)\<rparr>)"
    if "findItem (db_items db) k = Some j"
    using updateRentalApplication_item[OF u f that] unfolding sc .
  from updateRentalApplication_Inr[OF u] f obtain adjs where
    c: "collectAdjustments (items orig) (items upd) (db_items db) (isReserved (status orig))
               (isReserved (status upd)) (allInvolvedItemIds (items orig) (items upd)) = Inr adjs"
    by auto
  from collectAdjustments_Inr[OF c]
  have adjs: "adjs = concat (map (\<lambda>iid. adjustmentsFor (isReserved (status orig)) (isReserved (status upd))
                  (qtyOf (items orig) iid) (qtyOf (items upd) iid) iid) (allInvolvedItemIds (items orig) (items upd)))"
    by simp
  have "qtyOf (items orig) (adj_itemId a) \<noteq> qtyOf (items upd) (adj_itemId a)" if "a \<in> set adjs" for a
    using concat_adjustments_mem[OF that[unfolded adjs]] oR nR
    by (auto simp: computeStockChange_def signedQty_def split: StockOperation.splits)
  with c oR nR show "\<exists>adjs. collectAdjustments (items orig) (items upd) (db_items db) True True
                   (allInvolvedItemIds (items orig) (items upd)) = Inr adjs
           \<and> (\<forall>a\<in>set adjs. qtyOf (items orig) (adj_itemId a) \<noteq> qtyOf (items upd) (adj_itemId a))"
    by auto
qed

text \<open>
  C2. In a store where an admin has set the stock of item A from 5 to 9 (initialStock 10)
  while a PENDING application holds 5 of it, reducing the application's quantity from 5 to
  3 succeeds and increases the currentStock of A by 1, not by 2: the computed change 2
  would take the stock above initialStock and is cut to initialStock - currentStock. The
  same happens in both \<^verbatim>\<open>PUT /api/rentals/:id\<close> of worker.ts and
  \<^verbatim>\<open>updateRentalApplication\<close> of dataService.ts.
\<close>

theorem net_delta_capped_counterexample:
  "updateItem_direct True exDB5 ''A'' (exItem ''A'' 10 9 3000) = (Inr (exItem ''A'' 10 9 3000), exDB9)
   \<and> findApp (db_rentals exDB9) ''r1'' = Some (exApp ''r1'' PENDING [exEntry ''A'' 5] 15000)
   \<and> computeStockChange True True 5 3 = 2
   \<and> \<not> isl (fst (userUpdate_direct 10000 exDB9 ''r1'' (exEdit [exEntry ''A'' 3])))
   \<and> db_items exDB9 = [exItem ''A'' 10 9 3000]
   \<and> db_items (snd (userUpdate_direct 10000 exDB9 ''r1'' (exEdit [exEntry ''A'' 3]))) = [exItem ''A'' 10 10 3000]
   \<and> map items (db_rentals (snd (userUpdate_direct 10000 exDB9 ''r1'' (exEdit [exEntry ''A'' 3])))) = [[exEntry ''A'' 3]]
   \<and> updateItem exDB5 (exItem ''A'' 10 9 3000) = (Inr (exItem ''A'' 10 9 3000), exDB9)
   \<and> \<not> isl (fst (updateRentalApplication 10000 exDB9 (exApp ''r1'' PENDING [exEntry ''A'' 3] 0)))
   \<and> db_items (snd (updateRentalApplication 10000 exDB9 (exApp ''r1'' PENDING [exEntry ''A'' 3] 0)))
        = [exItem ''A'' 10 10 3000]"
  by (simp add: exDB5_def exDB9_def exEdit_def ex_defs eval_defs)

text \<open>
  C2, with the cap. When the old and the new status are both reserved, the stock change
  computed for an item is oldQty - newQty, a missing entry counting as 0. For an item of a
  store whose item ids are unique (the primary key of the Items table): when the two
  quantities are equal the engine's batch has no stock UPDATE for the item; when
  currentStock + (oldQty - newQty) does not exceed initialStock the batch's only stock
  UPDATE for the item adds exactly oldQty - newQty and after the batch the item's
  currentStock is the old one plus oldQty - newQty; when oldQty - newQty is positive and
  currentStock + (oldQty - newQty) exceeds initialStock the only stock UPDATE adds
  initialStock - currentStock and the currentStock after the batch is initialStock. The
  same two cases give the item's currentStock after a successful
  \<^verbatim>\<open>PUT /api/rentals/:id\<close> of the direct handler, and after a successful
  \<^verbatim>\<open>updateRentalApplication\<close> between reserved statuses, which makes no adjustment for
  an item whose quantities are equal.
\<close>

theorem net_delta_correctness:
  "computeStockChange True True oldQty newQty = oldQty - newQty
   \<and> (manageRentalUpdate_v3 fixedDeposit db orig core newItems = Inr (finalApp, ops)
       \<and> isReserved (status orig) \<and> isReserved (status core)
       \<and> distinct (map item_id (db_items db)) \<and> i \<in> set (db_items db)
      \<longrightarrow> (qtyOf (items orig) (item_id i) = qtyOf newItems (item_id i) \<longrightarrow>
             (\<forall>d. UpdateStockAdd d (item_id i) \<notin> set ops))
         \<and> (currentStock i + (qtyOf (items orig) (item_id i) - qtyOf newItems (item_id i)) \<le> initialStock i \<longrightarrow>
             (\<forall>d. UpdateStockAdd d (item_id i) \<in> set ops \<longleftrightarrow>
                   d = qtyOf (items orig) (item_id i) - qtyOf newItems (item_id i) \<and> d \<noteq> 0))
         \<and> (\<forall>db'. execBatch db ops = Some db'
               \<and> currentStock i + (qtyOf (items orig) (item_id i) - qtyOf newItems (item_id i)) \<le> initialStock i \<longrightarrow>
             findItem (db_items db') (item_id i)
               = Some (i\<lparr>currentStock := currentStock i
                            + (qtyOf (items orig) (item_id i) - qtyOf newItems (item_id i))\<rparr>))
         \<and> (qtyOf (items orig) (item_id i) - qtyOf newItems (item_id i) > 0
             \<and> currentStock i + (qtyOf (items orig) (item_id i) - qtyOf newItems (item_id i)) > initialStock i \<longrightarrow>
             (\<forall>d. UpdateStockAdd d (item_id i) \<in> set ops \<longleftrightarrow> d = initialStock i - currentStock i \<and> d \<noteq> 0))
         \<and> (\<forall>db'. execBatch db ops = Some db'
               \<and> qtyOf (items orig) (item_id i) - qtyOf newItems (item_id i) > 0
               \<and> currentStock i + (qtyOf (items orig) (item_id i) - qtyOf newItems (item_id i)) > initialStock i \<longrightarrow>
             findItem (db_items db') (item_id i) = Some (i\<lparr>currentStock := initialStock i\<rparr>)))
   \<and> (userUpdate_direct fixedDeposit db rid body = (Inr app, dbu)
       \<and> findApp (db_rentals db) rid = Some orig \<and> p_items body = Some newItems
       \<and> distinct (map item_id (db_items db)) \<and> i \<in> set (db_items db)
      \<longrightarrow> (currentStock i + (qtyOf (items orig) (item_id i) - qtyOf newItems (item_id i)) \<le> initialStock i \<longrightarrow>
             findItem (db_items dbu) (item_id i)
               = Some (i\<lparr>currentStock := currentStock i
                            + (qtyOf (items orig) (item_id i) - qtyOf newItems (item_id i))\<rparr>))
         \<and> (qtyOf (items orig) (item_id i) - qtyOf newItems (item_id i) > 0
             \<and> currentStock i + (qtyOf (items orig) (item_id i) - qtyOf newItems (item_id i)) > initialStock i \<longrightarrow>
             findItem (db_items dbu) (item_id i) = Some (i\<lparr>currentStock := initialStock i\<rparr>)))
   \<and> (findApp (db_rentals dbs) (app_id updatedApp) = Some originalApp
       \<and> isReserved (status originalApp) \<and> isReserved (status updatedApp)
       \<and> updateRentalApplication fixedDeposit dbs updatedApp = (Inr app5, dbs')
      \<longrightarrow> (\<forall>k j. findItem (db_items dbs) k = Some j \<longrightarrow>
             (currentStock j + (qtyOf (items originalApp) k - qtyOf (items updatedApp) k) \<le> initialStock j \<longrightarrow>
                findItem (db_items dbs') k
                  = Some (j\<lparr>currentStock := currentStock j
                               + (qtyOf (items originalApp) k - qtyOf (items updatedApp) k)\<rparr>))
             \<and> (qtyOf (items originalApp) k - qtyOf (items updatedApp) k > 0
                \<and> currentStock j + (qtyOf (items originalApp) k - qtyOf (items updatedApp) k) > initialStock j \<longrightarrow>
                findItem (db_items dbs') k = Some (j\<lparr>currentStock := initialStock j\<rparr>)))
         \<and> (\<exists>adjs. collectAdjustments (items originalApp) (items updatedApp) (db_items dbs) True True
                      (allInvolvedItemIds (items originalApp) (items updatedApp)) = Inr adjs
              \<and> (\<forall>a\<in>set adjs. qtyOf (items originalApp) (adj_itemId a)
                                  \<noteq> qtyOf (items updatedApp) (adj_itemId a))))"
proof -
  have p0: "computeStockChange True True oldQty newQty = oldQty - newQty"
    by (simp add: computeStockChange_def)
  have p1: "manageRentalUpdate_v3 fixedDeposit db orig core newItems = Inr (finalApp, ops)
       \<and> isReserved (status orig) \<and> isReserved (status core)
       \<and> distinct (map item_id (db_items db)) \<and> i \<in> set (db_items db)
      \<longrightarrow> (qtyOf (items orig) (item_id i) = qtyOf newItems (item_id i) \<longrightarrow>
             (\<forall>d. UpdateStockAdd d (item_id i) \<notin> set ops))
         \<and> (currentStock i + (qtyOf (items orig) (item_id i) - qtyOf newItems (item_id i)) \<le> initialStock i \<longrightarrow>
             (\<forall>d. UpdateStockAdd d (item_id i) \<in> set ops \<longleftrightarrow>
                   d = qtyOf (items orig) (item_id i) - qtyOf newItems (item_id i) \<and> d \<noteq> 0))
         \<and> (\<forall>db'. execBatch db ops = Some db'
               \<and> currentStock i + (qtyOf (items orig) (item_id i) - qtyOf newItems (item_id i)) \<le> initialStock i \<longrightarrow>
             findItem (db_items db') (item_id i)
               = Some (i\<lparr>currentStock := currentStock i
                            + (qtyOf (items orig) (item_id i) - qtyOf newItems (item_id i))\<rparr>))
         \<and> (qtyOf (items orig) (item_id i) - qtyOf newItems (item_id i) > 0
             \<and> currentStock i + (qtyOf (items orig) (item_id i) - qtyOf newItems (item_id i)) > initialStock i \<longrightarrow>
             (\<forall>d. UpdateStockAdd d (item_id i) \<in> set ops \<longleftrightarrow> d = initialStock i - currentStock i \<and> d \<noteq> 0))
         \<and> (\<forall>db'. execBatch db ops = Some db'
               \<and> qtyOf (items orig) (item_id i) - qtyOf newItems (item_id i) > 0
               \<and> currentStock i + (qtyOf (items orig) (item_id i) - qtyOf newItems (item_id i)) > initialStock i \<longrightarrow>
             findItem (db_items db') (item_id i) = Some (i\<lparr>currentStock := initialStock i\<rparr>))"
  proof (rule impI)
    assume h: "manageRentalUpdate_v3 fixedDeposit db orig core newItems = Inr (finalApp, ops)
       \<and> isReserved (status orig) \<and> isReserved (status core)
       \<and> distinct (map item_id (db_items db)) \<and> i \<in> set (db_items db)"
    then have m: "manageRentalUpdate_v3 fixedDeposit db orig core newItems = Inr (finalApp, ops)"
      and r: "isReserved (status orig)" "isReserved (status core)"
      and d: "distinct (map item_id (db_items db))" and i: "i \<in> set (db_items db)" by auto
    note e = engine_reserved_delta[OF m r d i]
    show "(qtyOf (items orig) (item_id i) = qtyOf newItems (item_id i) \<longrightarrow>
             (\<forall>d. UpdateStockAdd d (item_id i) \<notin> set ops))
         \<and> (currentStock i + (qtyOf (items orig) (item_id i) - qtyOf newItems (item_id i)) \<le> initialStock i \<longrightarrow>
             (\<forall>d. UpdateStockAdd d (item_id i) \<in> set ops \<longleftrightarrow>
                   d = qtyOf (items orig) (item_id i) - qtyOf newItems (item_id i) \<and> d \<noteq> 0))
         \<and> (\<forall>db'. execBatch db ops = Some db'
               \<and> currentStock i + (qtyOf (items orig) (item_id i) - qtyOf newItems (item_id i)) \<le> initialStock i \<longrightarrow>
             findItem (db_items db') (item_id i)
               = Some (i\<lparr>currentStock := currentStock i
                            + (qtyOf (items orig) (item_id i) - qtyOf newItems (item_id i))\<rparr>))
         \<and> (qtyOf (items orig) (item_id i) - qtyOf newItems (item_id i) > 0
             \<and> currentStock i + (qtyOf (items orig) (item_id i) - qtyOf newItems (item_id i)) > initialStock i \<longrightarrow>
             (\<forall>d. UpdateStockAdd d (item_id i) \<in> set ops \<longleftrightarrow> d = initialStock i - currentStock i \<and> d \<noteq> 0))
         \<and> (\<forall>db'. execBatch db ops = Some db'
               \<and> qtyOf (items orig) (item_id i) - qtyOf newItems (item_id i) > 0
               \<and> currentStock i + (qtyOf (items orig) (item_id i) - qtyOf newItems (item_id i)) > initialStock i \<longrightarrow>
             findItem (db_items db') (item_id i) = Some (i\<lparr>currentStock := initialStock i\<rparr>))"
      by (rule conjI[OF e(1) conjI[OF e(2) conjI[OF e(3) conjI[OF e(4) e(5)]]]])
  qed
  have p2: "userUpdate_direct fixedDeposit db rid body = (Inr app, dbu)
       \<and> findApp (db_rentals db) rid = Some orig \<and> p_items body = Some newItems
       \<and> distinct (map item_id (db_items db)) \<and> i \<in> set (db_items db)
      \<longrightarrow> (currentStock i + (qtyOf (items orig) (item_id i) - qtyOf newItems (item_id i)) \<le> initialStock i \<longrightarrow>
             findItem (db_items dbu) (item_id i)
               = Some (i\<lparr>currentStock := currentStock i
                            + (qtyOf (items orig) (item_id i) - qtyOf newItems (item_id i))\<rparr>))
         \<and> (qtyOf (items orig) (item_id i) - qtyOf newItems (item_id i) > 0
             \<and> currentStock i + (qtyOf (items orig) (item_id i) - qtyOf newItems (item_id i)) > initialStock i \<longrightarrow>
             findItem (db_items dbu) (item_id i) = Some (i\<lparr>currentStock := initialStock i\<rparr>))"
  proof (rule impI)
    assume h: "userUpdate_direct fixedDeposit db rid body = (Inr app, dbu)
       \<and> findApp (db_rentals db) rid = Some orig \<and> p_items body = Some newItems
       \<and> distinct (map item_id (db_items db)) \<and> i \<in> set (db_items db)"
    then have a: "userUpdate_direct fixedDeposit db rid body = (Inr app, dbu)"
      and f: "findApp (db_rentals db) rid = Some orig" and p: "p_items body = Some newItems"
      and d: "distinct (map item_id (db_items db))" and i: "i \<in> set (db_items db)" by auto
    note s = userUpdate_direct_stock[OF a f p d i]
    show "(currentStock i + (qtyOf (items orig) (item_id i) - qtyOf newItems (item_id i)) \<le> initialStock i \<longrightarrow>
             findItem (db_items dbu) (item_id i)
               = Some (i\<lparr>currentStock := currentStock i
                            + (qtyOf (items orig) (item_id i) - qtyOf newItems (item_id i))\<rparr>))
         \<and> (qtyOf (items orig) (item_id i) - qtyOf newItems (item_id i) > 0
             \<and> currentStock i + (qtyOf (items orig) (item_id i) - qtyOf newItems (item_id i)) > initialStock i \<longrightarrow>
             findItem (db_items dbu) (item_id i) = Some (i\<lparr>currentStock := initialStock i\<rparr>))"
      unfolding s by (simp add: writtenChange_v3_def)
  qed
  have p3: "findApp (db_rentals dbs) (app_id updatedApp) = Some originalApp
       \<and> isReserved (status originalApp) \<and> isReserved (status updatedApp)
       \<and> updateRentalApplication fixedDeposit dbs updatedApp = (Inr app5, dbs')
      \<longrightarrow> (\<forall>k j. findItem (db_items dbs) k = Some j \<longrightarrow>
             (currentStock j + (qtyOf (items originalApp) k - qtyOf (items updatedApp) k) \<le> initialStock j \<longrightarrow>
                findItem (db_items dbs') k
                  = Some (j\<lparr>currentStock := currentStock j
                               + (qtyOf (items originalApp) k - qtyOf (items updatedApp) k)\<rparr>))
             \<and> (qtyOf (items originalApp) k - qtyOf (items updatedApp) k > 0
                \<and> currentStock j + (qtyOf (items originalApp) k - qtyOf (items updatedApp) k) > initialStock j \<longrightarrow>
                findItem (db_items dbs') k = Some (j\<lparr>currentStock := initialStock j\<rparr>)))
         \<and> (\<exists>adjs. collectAdjustments (items originalApp) (items updatedApp) (db_items dbs) True True
                      (allInvolvedItemIds (items originalApp) (items updatedApp)) = Inr adjs
              \<and> (\<forall>a\<in>set adjs. qtyOf (items originalApp) (adj_itemId a)
                                  \<noteq> qtyOf (items updatedApp) (adj_itemId a)))"
  proof (rule impI)
    assume h: "findApp (db_rentals dbs) (app_id updatedApp) = Some originalApp
       \<and> isReserved (status originalApp) \<and> isReserved (status updatedApp)
       \<and> updateRentalApplication fixedDeposit dbs updatedApp = (Inr app5, dbs')"
    then have a: "findApp (db_rentals dbs) (app_id updatedApp) = Some originalApp"
      "isReserved (status originalApp)" "isReserved (status updatedApp)"
      "updateRentalApplication fixedDeposit dbs updatedApp = (Inr app5, dbs')" by auto
    note s = service_reserved_delta[OF a]
    have s1: "\<forall>k j. findItem (db_items dbs) k = Some j \<longrightarrow>
             (currentStock j + (qtyOf (items originalApp) k - qtyOf (items updatedApp) k) \<le> initialStock j \<longrightarrow>
                findItem (db_items dbs') k
                  = Some (j\<lparr>currentStock := currentStock j
                               + (qtyOf (items originalApp) k - qtyOf (items updatedApp) k)\<rparr>))
             \<and> (qtyOf (items originalApp) k - qtyOf (items updatedApp) k > 0
                \<and> currentStock j + (qtyOf (items originalApp) k - qtyOf (items updatedApp) k) > initialStock j \<longrightarrow>
                findItem (db_items dbs') k = Some (j\<lparr>currentStock := initialStock j\<rparr>))"
    proof (intro allI impI)
      fix k j assume "findItem (db_items dbs) k = Some j"
      note e = s(1)[OF this]
      show "(currentStock j + (qtyOf (items originalApp) k - qtyOf (items updatedApp) k) \<le> initialStock j \<longrightarrow>
                findItem (db_items dbs') k
                  = Some (j\<lparr>currentStock := currentStock j
                               + (qtyOf (items originalApp) k - qtyOf (items updatedApp) k)\<rparr>))
             \<and> (qtyOf (items originalApp) k - qtyOf (items updatedApp) k > 0
                \<and> currentStock j + (qtyOf (items originalApp) k - qtyOf (items updatedApp) k) > initialStock j \<longrightarrow>
                findItem (db_items dbs') k = Some (j\<lparr>currentStock := initialStock j\<rparr>))"
        unfolding e by (simp add: writtenChange_v3_def)
    qed
    show "(\<forall>k j. findItem (db_items dbs) k = Some j \<longrightarrow>
             (currentStock j + (qtyOf (items originalApp) k - qtyOf (items updatedApp) k) \<le> initialStock j \<longrightarrow>
                findItem (db_items dbs') k
                  = Some (j\<lparr>currentStock := currentStock j
                               + (qtyOf (items originalApp) k - qtyOf (items updatedApp) k)\<rparr>))
             \<and> (qtyOf (items originalApp) k - qtyOf (items updatedApp) k > 0
                \<and> currentStock j + (qtyOf (items originalApp) k - qtyOf (items updatedApp) k) > initialStock j \<longrightarrow>
                findItem (db_items dbs') k = Some (j\<lparr>currentStock := initialStock j\<rparr>)))
         \<and> (\<exists>adjs. collectAdjustments (items originalApp) (items updatedApp) (db_items dbs) True True
                      (allInvolvedItemIds (items originalApp) (items updatedApp)) = Inr adjs
              \<and> (\<forall>a\<in>set adjs. qtyOf (items originalApp) (adj_itemId a)
                                  \<noteq> qtyOf (items updatedApp) (adj_itemId a)))"
      by (rule conjI[OF s1 s(2)])
  qed
  show ?thesis by (rule conjI[OF p0 conjI[OF p1 conjI[OF p2 p3]]])
qed

theorem net_delta_correctness_witness:
  "\<exists>finalApp ops db' app dbu app5 db2.
     manageRentalUpdate_v3 10000 exDB5 (exApp ''r1'' PENDING [exEntry ''A'' 5] 15000)
        (exApp ''r1'' PENDING [exEntry ''A'' 5] 15000) [exEntry ''A'' 3] = Inr (finalApp, ops)
     \<and> (\<forall>d. UpdateStockAdd d ''A'' \<in> set ops \<longleftrightarrow> d = 2)
     \<and> execBatch exDB5 ops = Some db'
     \<and> findItem (db_items db') ''A'' = Some (exItem ''A'' 10 7 3000)
     \<and> userUpdate_direct 10000 exDB5 ''r1'' (exEdit [exEntry ''A'' 3]) = (Inr app, dbu)
     \<and> findItem (db_items dbu) ''A'' = Some (exItem ''A'' 10 7 3000)
     \<and> updateRentalApplication 10000 exDB5 (exApp ''r1'' PENDING [exEntry ''A'' 3] 0) = (Inr app5, db2)
     \<and> findItem (db_items db2) ''A'' = Some (exItem ''A'' 10 7 3000)"
proof -
  let ?orig = "exApp ''r1'' PENDING [exEntry ''A'' 5] 15000"
  let ?upd = "exApp ''r1'' PENDING [exEntry ''A'' 3] 0"
  let ?i = "exItem ''A'' 10 5 3000"
  let ?body = "exEdit [exEntry ''A'' 3]"
  obtain fa ops d' where m: "manageRentalUpdate_v3 10000 exDB5 ?orig ?orig [exEntry ''A'' 3] = Inr (fa, ops)"
    and ex: "execBatch exDB5 ops = Some d'"
    by (simp add: exDB5_def ex_defs eval_defs)
  obtain app du where uu: "userUpdate_direct 10000 exDB5 ''r1'' ?body = (Inr app, du)"
    by (simp add: exDB5_def exEdit_def ex_defs eval_defs)
  obtain app5 d2 where u: "updateRentalApplication 10000 exDB5 ?upd = (Inr app5, d2)"
    by (simp add: exDB5_def ex_defs eval_defs)
  have h1: "isReserved (status ?orig)" "distinct (map item_id (db_items exDB5))" "?i \<in> set (db_items exDB5)"
    by (simp_all add: isReserved_def exDB5_def ex_defs)
  have h2: "findApp (db_rentals exDB5) ''r1'' = Some ?orig" "p_items ?body = Some [exEntry ''A'' 3]"
    by (simp_all add: findApp_def exDB5_def exEdit_def ex_defs)
  have h3: "findApp (db_rentals exDB5) (app_id ?upd) = Some ?orig" "isReserved (status ?upd)"
    by (simp_all add: findApp_def isReserved_def exDB5_def ex_defs)
  have fi: "findItem (db_items exDB5) ''A'' = Some ?i"
    by (simp add: findItem_def exDB5_def ex_defs)
  have q: "item_id ?i = ''A''" "qtyOf (items ?orig) ''A'' = 5" "qtyOf [exEntry ''A'' 3] ''A'' = 3"
    "qtyOf (items ?upd) ''A'' = 3" "currentStock ?i = 5" "initialStock ?i = 10"
    "?i\<lparr>currentStock := 7\<rparr> = exItem ''A'' 10 7 3000"
    by (simp_all add: qtyOf_def findEntry_def ex_defs)
  note t = net_delta_correctness[where db = exDB5 and orig = ?orig and core = ?orig
      and newItems = "[exEntry ''A'' 3]" and finalApp = fa and ops = ops and i = ?i and fixedDeposit = 10000
      and rid = "''r1''" and body = ?body and app = app and dbu = du
      and dbs = exDB5 and updatedApp = ?upd and originalApp = ?orig and ?app5.0 = app5 and dbs' = d2]
  note te = t[THEN conjunct2, THEN conjunct1, rule_format, OF conjI[OF m conjI[OF h1(1) conjI[OF h1(1) conjI[OF h1(2) h1(3)]]]]]
  from te[THEN conjunct2, THEN conjunct1] q(1,2,3,5,6)
  have w0: "\<forall>d. UpdateStockAdd d ''A'' \<in> set ops \<longleftrightarrow> d = 2 \<and> d \<noteq> 0" by simp
  have w: "\<forall>d. UpdateStockAdd d ''A'' \<in> set ops \<longleftrightarrow> d = 2"
  proof
    fix d :: int
    have "(d = 2 \<and> d \<noteq> 0) = (d = 2)" by auto
    with w0 show "UpdateStockAdd d ''A'' \<in> set ops \<longleftrightarrow> d = 2" by simp
  qed
  from te[THEN conjunct2, THEN conjunct2, THEN conjunct1, rule_format, of d'] ex q
  have f: "findItem (db_items d') ''A'' = Some (exItem ''A'' 10 7 3000)" by simp
  note tu = t[THEN conjunct2, THEN conjunct2, THEN conjunct1, rule_format,
      OF conjI[OF uu conjI[OF h2(1) conjI[OF h2(2) conjI[OF h1(2) h1(3)]]]]]
  from tu[THEN conjunct1] q
  have fu: "findItem (db_items du) ''A'' = Some (exItem ''A'' 10 7 3000)" by simp
  note ts = t[THEN conjunct2, THEN conjunct2, THEN conjunct2, rule_format,
      OF conjI[OF h3(1) conjI[OF h1(1) conjI[OF h3(2) u]]]]
  from ts[THEN conjunct1, rule_format, OF fi, THEN conjunct1] q
  have f2: "findItem (db_items d2) ''A'' = Some (exItem ''A'' 10 7 3000)" by simp
  note k = m w ex f uu fu u f2
  show ?thesis by (intro exI conjI) (rule k)+
qed

end
